theory Spec2Isabelle
  imports Complex_Main "HOL-Library.Word" "HOL-Library.Log_Nat"
begin

section \<open>Strings and numbers of JavaScript\<close>

text \<open>
  A string is the list of its UTF-16 code units: \<open>length\<close>, \<open>slice\<close>, \<open>split\<close>,
  \<open>includes\<close> and the character classes of regular expressions all work on code
  units. \<open>js\<close> writes a string literal of the source; a character of ASCII or Latin-1
  is one code unit, its code.
\<close>

type_synonym codeunit = "16 word"

type_synonym jsstring = "codeunit list"

definition unitOf :: "char \<Rightarrow> codeunit" where
  "unitOf c = of_nat (of_char c)"

definition js :: "string \<Rightarrow> jsstring" where
  "js s = map unitOf s"

fun joinWith :: "jsstring \<Rightarrow> jsstring list \<Rightarrow> jsstring" where
  "joinWith sep [] = []"
| "joinWith sep [x] = x"
| "joinWith sep (x # y # ys) = x @ sep @ joinWith sep (y # ys)"

text \<open>
  A number is a binary64 floating-point number. The finite ones are rationals, and every
  arithmetic operation gives the exact result rounded to the nearest of them, a tie
  going to the even significand: \<open>dbl\<close> is that rounding, on the normal and the
  subnormal range (no result here is large enough to overflow). \<open>exponentOf x\<close> is the
  integer \<open>e\<close> with \<open>2^e \<le> |x| < 2^(e+1)\<close>.
\<close>

definition roundHalfEven :: "rat \<Rightarrow> int" where
  "roundHalfEven q =
     (let f = \<lfloor>q\<rfloor>; r = q - of_int f
      in if r < 1 / 2 then f else if 1 / 2 < r then f + 1 else if even f then f else f + 1)"

definition exponentOf :: "rat \<Rightarrow> int" where
  "exponentOf x =
     (let p = \<bar>fst (quotient_of x)\<bar>; q = snd (quotient_of x); k = bitlen p - bitlen q
      in if (2 :: rat) powi k \<le> \<bar>x\<bar> then k else k - 1)"

definition dbl :: "rat \<Rightarrow> rat" where
  "dbl x =
     (if x = 0 then 0
      else (let ulp = (2 :: rat) powi (max (exponentOf x) (- 1022) - 52)
            in of_int (roundHalfEven (x / ulp)) * ulp))"

text \<open>\<open>Math.round\<close>: the nearest integer, a half going up.\<close>

definition jsRound :: "rat \<Rightarrow> int" where
  "jsRound x = \<lfloor>x + 1 / 2\<rfloor>"

text \<open>The decimal digits of an integer, as a template string renders it.\<close>

fun showNat :: "nat \<Rightarrow> jsstring" where
  "showNat n =
     (if n < 10 then [of_nat (48 + n)]
      else showNat (n div 10) @ [of_nat (48 + n mod 10)])"

declare showNat.simps [simp del]

definition showInt :: "int \<Rightarrow> jsstring" where
  "showInt i = (if i < 0 then unitOf CHR ''-'' # showNat (nat (- i)) else showNat (nat i))"

section \<open>JavaScript values as the response pipeline sees them\<close>

text \<open>
  The response body reaches \<open>normalizeResult\<close> either from \<open>response.json()\<close> or from
  \<open>safeJsonParse\<close>, so the input is a JSON value or a bare string; \<open>undefined\<close> is
  added because reading a property that is absent yields it. Numbers that JSON can
  denote are finite, so they are kept as rationals; only their truthiness and their type
  tag are looked at here.
\<close>

datatype jsval =
    JUndefined
  | JNull
  | JBool bool
  | JNum rat
  | JStr jsstring
  | JArr "jsval list"
  | JObj "(jsstring \<times> jsval) list"

datatype jstype = TUndefined | TObject | TBoolean | TNumber | TString

datatype jserror = TypeError

fun typeof :: "jsval \<Rightarrow> jstype" where
  "typeof JUndefined = TUndefined"
| "typeof JNull = TObject"
| "typeof (JBool b) = TBoolean"
| "typeof (JNum n) = TNumber"
| "typeof (JStr s) = TString"
| "typeof (JArr xs) = TObject"
| "typeof (JObj kvs) = TObject"

fun truthy :: "jsval \<Rightarrow> bool" where
  "truthy JUndefined = False"
| "truthy JNull = False"
| "truthy (JBool b) = b"
| "truthy (JNum n) = (n \<noteq> 0)"
| "truthy (JStr s) = (s \<noteq> [])"
| "truthy (JArr xs) = True"
| "truthy (JObj kvs) = True"

text \<open>
  Property read \<open>v.key\<close> for the two keys the code reads (\<open>result\<close> and \<open>content\<close>):
  on \<open>null\<close> and \<open>undefined\<close> it throws a TypeError, on an object it is the stored
  value or \<open>undefined\<close>, and on arrays and primitives neither key exists. An object is
  the list of its properties, each key once.
\<close>

fun getProp :: "jsval \<Rightarrow> jsstring \<Rightarrow> jserror + jsval" where
  "getProp JUndefined k = Inl TypeError"
| "getProp JNull k = Inl TypeError"
| "getProp (JObj kvs) k = Inr (case map_of kvs k of None \<Rightarrow> JUndefined | Some v \<Rightarrow> v)"
| "getProp v k = Inr JUndefined"

text \<open>
  \<open>String(v)\<close>. The decimal rendering of a number is the engine's, so it is a
  parameter. An array is the join of its elements by commas, with \<open>null\<close> and
  \<open>undefined\<close> elements rendered as nothing.
\<close>

fun jsString :: "(rat \<Rightarrow> jsstring) \<Rightarrow> jsval \<Rightarrow> jsstring" where
  "jsString numberToString JUndefined = js ''undefined''"
| "jsString numberToString JNull = js ''null''"
| "jsString numberToString (JBool b) = (if b then js ''true'' else js ''false'')"
| "jsString numberToString (JNum n) = numberToString n"
| "jsString numberToString (JStr s) = s"
| "jsString numberToString (JArr xs) =
     joinWith (js '','')
       (map (\<lambda>x. if x = JNull \<or> x = JUndefined then [] else jsString numberToString x) xs)"
| "jsString numberToString (JObj kvs) = js ''[object Object]''"

subsection \<open>normalizeResult\<close>

text \<open>
  The branches are in the order of the source. The second and third look at
  \<open>input.result\<close> only when it is truthy (\<open>&&\<close> short-circuits), which is what keeps the
  read of \<open>input.result.content\<close> from throwing.
\<close>

definition normalizeResult :: "(rat \<Rightarrow> jsstring) \<Rightarrow> jsval \<Rightarrow> jserror + jsval" where
  "normalizeResult numberToString input =
     (if input = JNull \<or> input = JUndefined then Inr (JStr [])
      else if typeof input = TString then Inr input
      else if typeof input = TObject then
        (case getProp input (js ''result'') of
           Inl e \<Rightarrow> Inl e
         | Inr r \<Rightarrow>
             if typeof r = TString then Inr r
             else if truthy r \<and> typeof r = TObject then Inr r
             else if truthy r then
               (case getProp r (js ''content'') of
                  Inl e \<Rightarrow> Inl e
                | Inr c \<Rightarrow> if typeof c = TString then Inr c else Inr input)
             else Inr input)
      else Inr (JStr (jsString numberToString input)))"

section \<open>Data model of the wizard\<close>

text \<open>
  \<open>Step = 1 | 2 | 3 | 3.5 | 4\<close>: the source keeps the step as a number and computes with
  it (\<open>currentStep + 1\<close>, \<open>currentStep < 4\<close>), so the model keeps the number. All five
  values and their sums with \<open>1\<close> are exact in binary floating point, so rational
  arithmetic is what the code computes. \<open>stepOrder\<close> is the order of the steps: Style,
  Topic, Settings, Refinement, Result.
\<close>

type_synonym Step = rat

definition stepOrder :: "Step list" where
  "stepOrder = [1, 2, 3, 7 / 2, 4]"

fun indexOf :: "'a \<Rightarrow> 'a list \<Rightarrow> nat" where
  "indexOf x [] = 0"
| "indexOf x (y # ys) = (if x = y then 0 else Suc (indexOf x ys))"

datatype MessageType = Ai | User

record ChatMessage =
  msgId :: jsstring
  msgType :: MessageType
  content :: jsstring
  options :: "jsstring list option"
  timestamp :: int

datatype ErrorType = Network | Timeout | Server | Unknown

record ApiError =
  errorType :: ErrorType
  message :: jsstring
  retryable :: bool

text \<open>
  \<open>ApiResult\<close>: every field is optional. The entries of the four lists are records of
  strings in the source (\<open>time/type/description\<close>, \<open>timeRange/content\<close>,
  \<open>time/text/style\<close>, \<open>time/effect\<close>), kept as tuples.
\<close>

record ApiResult =
  script :: "jsstring option"
  transitions :: "(jsstring \<times> jsstring \<times> jsstring) list option"
  bRoll :: "(jsstring \<times> jsstring) list option"
  textOverlays :: "(jsstring \<times> jsstring \<times> jsstring) list option"
  soundEffects :: "(jsstring \<times> jsstring) list option"

datatype ApiResults = Text jsstring | Structured ApiResult

record ScoreData =
  overall :: int
  creativity :: int
  engagement :: int
  clarity :: int
  timing :: int

record ModalConfig =
  modalShow :: bool
  modalTitle :: jsstring
  modalMessage :: jsstring

text \<open>
  The fields that the auto-save effect writes to session storage. The wizard state and
  the stored snapshot both extend them.
\<close>

record Persisted =
  currentStep :: Step
  selectedStyle :: jsstring
  customStyleName :: jsstring
  broadTopic :: jsstring
  keyword :: jsstring
  scriptLength :: int
  selectedLanguage :: jsstring
  selectedTone :: jsstring
  ctaInclusion :: bool
  chatMessages :: "ChatMessage list"

text \<open>
  A stored snapshot: \<open>snapshotTimestamp\<close> is \<open>None\<close> when the parsed object has no
  \<open>timestamp\<close> property.
\<close>

record Snapshot = Persisted +
  snapshotTimestamp :: "int option"

text \<open>
  The component's state: the \<open>useState\<close> cells and the two \<open>useRef\<close> cells
  (\<open>hasAttemptedQuestionFetch\<close>, \<open>messageIdCounter\<close>) that the engine reads and writes.
\<close>

record WizardState = Persisted +
  isExpanded :: bool
  userInput :: jsstring
  isTyping :: bool
  typingText :: jsstring
  skipRefinement :: bool
  showSkipConfirm :: bool
  questionFetchFailed :: bool
  hasAttemptedQuestionFetch :: bool
  messageIdCounter :: nat
  apiResults :: "ApiResults option"
  isLoading :: bool
  apiError :: "ApiError option"
  retryCount :: nat
  loadingProgress :: rat
  estimatedTime :: nat
  scoreData :: "ScoreData option"
  hasUnsavedChanges :: bool
  modalConfig :: ModalConfig

definition initialState :: WizardState where
  "initialState =
     \<lparr> currentStep = 1, selectedStyle = [], customStyleName = [], broadTopic = [],
       keyword = [], scriptLength = 45, selectedLanguage = (js ''Select''),
       selectedTone = (js ''Select''), ctaInclusion = False, chatMessages = [],
       isExpanded = False, userInput = [], isTyping = False, typingText = [],
       skipRefinement = False, showSkipConfirm = False, questionFetchFailed = False,
       hasAttemptedQuestionFetch = False, messageIdCounter = 0, apiResults = None,
       isLoading = False, apiError = None, retryCount = 0, loadingProgress = 0,
       estimatedTime = 0, scoreData = None, hasUnsavedChanges = False,
       modalConfig = \<lparr> modalShow = False, modalTitle = [], modalMessage = [] \<rparr> \<rparr>"

subsection \<open>Message ids\<close>

text \<open>
  \<open>generateMessageId\<close>: bumps the counter and returns
  \<open>msg_<Date.now()>_<counter>\<close>. \<open>now\<close> is the reading of the clock.
\<close>

definition generateMessageId :: "int \<Rightarrow> WizardState \<Rightarrow> jsstring \<times> WizardState" where
  "generateMessageId now s =
     (let c = messageIdCounter s + 1
      in (js ''msg_'' @ showInt now @ (js ''_'') @ showNat c, s\<lparr>messageIdCounter := c\<rparr>))"

section \<open>WizardController\<close>

definition handleNext :: "WizardState \<Rightarrow> WizardState" where
  "handleNext s =
     (if currentStep s = 3 then
        s\<lparr>currentStep := 7 / 2, questionFetchFailed := False,
          hasAttemptedQuestionFetch := False\<rparr>
      else if currentStep s < 4 \<and> currentStep s \<noteq> 7 / 2 then
        s\<lparr>currentStep := currentStep s + 1\<rparr>
      else s)"

definition handleBack :: "WizardState \<Rightarrow> WizardState" where
  "handleBack s =
     (if currentStep s = 7 / 2 then
        s\<lparr>currentStep := 3, chatMessages := [], skipRefinement := False,
          questionFetchFailed := False, hasAttemptedQuestionFetch := False\<rparr>
      else if currentStep s > 1 then
        s\<lparr>currentStep := currentStep s - 1\<rparr>
      else s)"

definition confirmSkip :: "WizardState \<Rightarrow> WizardState" where
  "confirmSkip s = s\<lparr>skipRefinement := True, showSkipConfirm := False, currentStep := 4\<rparr>"

text \<open>
  The other way into Result: the timer that \<open>handleChatResponse\<close> sets after the closing
  message has been typed runs \<open>setCurrentStep(4)\<close>.
\<close>

definition chatCompleted :: "WizardState \<Rightarrow> WizardState" where
  "chatCompleted s = s\<lparr>currentStep := 4\<rparr>"

subsection \<open>The generation trigger\<close>

text \<open>
  \<open>!apiResults\<close>: \<open>null\<close> and the empty string are falsy, every object is truthy.
\<close>

fun resultsTruthy :: "ApiResults option \<Rightarrow> bool" where
  "resultsTruthy None = False"
| "resultsTruthy (Some (Text t)) = (t \<noteq> [])"
| "resultsTruthy (Some (Structured r)) = True"

definition LANGUAGE_CODE :: "(jsstring \<times> jsstring) list" where
  "LANGUAGE_CODE =
     [(js ''English'', (js ''en'')), (js ''Spanish'', (js ''es'')), (js ''French'', (js ''fr'')), (js ''German'', (js ''de'')),
      (js ''Italian'', (js ''it'')), (js ''Portuguese'', (js ''pt'')), (js ''Dutch'', (js ''nl'')), (js ''Russian'', (js ''ru'')),
      (js ''Chinese'', (js ''zh'')), (js ''Japanese'', (js ''ja'')), (js ''Korean'', (js ''ko'')), (js ''Arabic'', (js ''ar''))]"

definition languageCode :: "jsstring \<Rightarrow> jsstring" where
  "languageCode l = (case map_of LANGUAGE_CODE l of None \<Rightarrow> l | Some c \<Rightarrow> c)"

record FinalRequest =
  reqText :: jsstring
  reqStyle :: jsstring
  reqLength :: int
  reqTone :: jsstring
  reqLanguage :: jsstring
  reqCtaInclusion :: bool
  reqOutputType :: jsstring
  reqRefinementContext :: "jsstring option"
  reqPhase :: jsstring

definition finalRequestData :: "WizardState \<Rightarrow> FinalRequest" where
  "finalRequestData s =
     \<lparr> reqText = keyword s,
       reqStyle = (if selectedStyle s = (js ''other'') then customStyleName s else selectedStyle s),
       reqLength = scriptLength s,
       reqTone = selectedTone s,
       reqLanguage = languageCode (selectedLanguage s),
       reqCtaInclusion = ctaInclusion s,
       reqOutputType = (js ''script''),
       reqRefinementContext =
         (if skipRefinement s then None
          else Some (joinWith (js '', '')
                 (map content (filter (\<lambda>m. msgType m = User) (chatMessages s))))),
       reqPhase = (js ''final'') \<rparr>"

text \<open>
  \<open>fetchFinalScriptRef.current\<close> up to its first \<open>await\<close>: the state it resets and the
  request it hands to \<open>fetchWithRetry\<close>.
\<close>

definition fetchFinalScript_start :: "WizardState \<Rightarrow> WizardState \<times> FinalRequest" where
  "fetchFinalScript_start s =
     (s\<lparr>isLoading := True, apiError := None, apiResults := None, scoreData := None,
        loadingProgress := 0, retryCount := 0, estimatedTime := 25\<rparr>,
      finalRequestData s)"

text \<open>
  The effect on \<open>[currentStep, apiResults, isLoading]\<close>: the state after it and the
  request it issued, if any.
\<close>

definition generationEffect :: "WizardState \<Rightarrow> WizardState \<times> FinalRequest option" where
  "generationEffect s =
     (if currentStep s = 4 \<and> \<not> resultsTruthy (apiResults s) \<and> \<not> isLoading s then
        (fst (fetchFinalScript_start s), Some (snd (fetchFinalScript_start s)))
      else (s, None))"

section \<open>GenerationRequestPipeline\<close>

fun isPrefixOf :: "jsstring \<Rightarrow> jsstring \<Rightarrow> bool" where
  "isPrefixOf [] ys = True"
| "isPrefixOf (x # xs) [] = False"
| "isPrefixOf (x # xs) (y # ys) = (x = y \<and> isPrefixOf xs ys)"

text \<open>\<open>s.includes(sub)\<close> (\<open>includes\<close> itself is a keyword of Isabelle).\<close>

fun includesStr :: "jsstring \<Rightarrow> jsstring \<Rightarrow> bool" where
  "includesStr [] sub = isPrefixOf sub []"
| "includesStr (c # cs) sub = (isPrefixOf sub (c # cs) \<or> includesStr cs sub)"

text \<open>
  What \<open>createApiError\<close> reads of a thrown value: its \<open>name\<close> and its \<open>message\<close>.
  A failed \<open>fetch\<close> throws a \<open>TypeError\<close>, an aborted one an \<open>AbortError\<close>, and
  \<open>new Error(m)\<close> has the name \<open>Error\<close>.
\<close>

record JsError =
  name :: jsstring
  errorMessage :: jsstring

definition newError :: "jsstring \<Rightarrow> JsError" where
  "newError m = \<lparr> name = (js ''Error''), errorMessage = m \<rparr>"

record Response =
  status :: nat
  statusText :: jsstring
  bodyText :: jsstring

definition ok :: "Response \<Rightarrow> bool" where
  "ok r = (200 \<le> status r \<and> status r \<le> 299)"

subsection \<open>createApiError\<close>

text \<open>\<open>onLine\<close> is \<open>navigator.onLine\<close> at the moment of the classification.\<close>

definition createApiError :: "bool \<Rightarrow> JsError \<Rightarrow> ApiError" where
  "createApiError onLine error =
     (if name error = (js ''AbortError'') then
        \<lparr> errorType = Timeout,
          message = (js ''The request timed out. Please try again in a moment.''),
          retryable = True \<rparr>
      else if \<not> onLine then
        \<lparr> errorType = Network,
          message = (js ''Internet connection lost. Please check your network.''),
          retryable = True \<rparr>
      else if includesStr (errorMessage error) (js ''HTTP 5'') then
        \<lparr> errorType = Server,
          message = (js ''The server is temporarily unavailable. Please try again shortly.''),
          retryable = True \<rparr>
      else if includesStr (errorMessage error) (js ''HTTP 4'') then
        \<lparr> errorType = Server,
          message = (js ''Bad request. Please check your input.''),
          retryable = False \<rparr>
      else
        \<lparr> errorType = Unknown,
          message = (if errorMessage error \<noteq> [] then errorMessage error
                     else (js ''Something went wrong. Please try again.'')),
          retryable = True \<rparr>)"

subsection \<open>fetchWithRetry\<close>

text \<open>
  \<open>fetch\<close> either resolves with a response or rejects with an error; the model is told
  the outcome of each attempt by its index. The trace records, in order, what the loop
  does: the sleeps with their delays, the calls of \<open>setRetryCount\<close> and the calls of
  \<open>fetch\<close>.
\<close>

datatype FetchOutcome = Resolved Response | Rejected JsError

datatype Event = Sleep nat | SetRetryCount nat | Fetch nat

definition backoff :: "nat \<Rightarrow> nat" where
  "backoff i = min (1000 * 2 ^ (i - 1)) 8000"

text \<open>
  The \<open>for\<close> loop from index \<open>i\<close> on. Falling out of the loop throws \<open>lastError\<close>,
  which is \<open>undefined\<close> (\<open>None\<close>) when nothing was caught.
\<close>

function fetchLoop ::
  "(nat \<Rightarrow> FetchOutcome) \<Rightarrow> nat \<Rightarrow> nat \<Rightarrow> JsError option \<Rightarrow> Event list
     \<Rightarrow> (JsError option + Response) \<times> Event list" where
  "fetchLoop fetch maxRetries i lastError trace =
     (if i \<le> maxRetries then
        (let trace1 = (if i > 0 then trace @ [Sleep (backoff i), SetRetryCount i] else trace);
             trace2 = trace1 @ [Fetch i]
         in case fetch i of
              Resolved response \<Rightarrow>
                if status response \<ge> 500 \<and> i < maxRetries then
                  fetchLoop fetch maxRetries (i + 1)
                    (Some (newError (js ''HTTP '' @ showNat (status response)))) trace2
                else (Inr response, trace2)
            | Rejected error \<Rightarrow>
                if name error \<noteq> (js ''AbortError'') \<and> i < maxRetries then
                  fetchLoop fetch maxRetries (i + 1) (Some error) trace2
                else (Inl (Some error), trace2))
      else (Inl lastError, trace))"
  by pat_completeness auto
termination
  by (relation "measure (\<lambda>(fetch, maxRetries, i, lastError, trace). Suc maxRetries - i)") auto

declare fetchLoop.simps [simp del]

definition fetchWithRetry ::
  "(nat \<Rightarrow> FetchOutcome) \<Rightarrow> nat \<Rightarrow> (JsError option + Response) \<times> Event list" where
  "fetchWithRetry fetch maxRetries = fetchLoop fetch maxRetries 0 None []"

subsection \<open>From the response to the error state\<close>

text \<open>
  A response that is not \<open>ok\<close> is thrown by the two generation calls as
  \<open>HTTP <status> <statusText>\<close>, followed by a middle dot (U+00B7) and the first 300
  code units of the body when the body is not empty. \<open>bodyText\<close> is what
  \<open>response.text()\<close> gives.
\<close>

definition httpError :: "Response \<Rightarrow> JsError" where
  "httpError r =
     newError (js ''HTTP '' @ showNat (status r) @ (js '' '') @ statusText r @
       (if bodyText r \<noteq> [] then (js '' '') @ [0xB7] @ (js '' '') @ take 300 (bodyText r)
        else []))"

text \<open>
  The error that \<open>fetchFinalScriptRef.current\<close> and \<open>regenerateWithEdit\<close> put into
  \<open>apiError\<close> on the way from \<open>fetchWithRetry\<close> to the test of \<open>response.ok\<close>,
  given what \<open>fetchWithRetry\<close> returned or threw; \<open>None\<close> for a response that is
  \<open>ok\<close>, whose body is read next. A thrown \<open>undefined\<close> has neither name nor
  message.
\<close>

definition undefinedError :: JsError where
  "undefinedError = \<lparr> name = [], errorMessage = [] \<rparr>"

definition generationError :: "bool \<Rightarrow> (JsError option + Response) \<Rightarrow> ApiError option" where
  "generationError onLine result =
     (case result of
        Inl None \<Rightarrow> Some (createApiError onLine undefinedError)
      | Inl (Some e) \<Rightarrow> Some (createApiError onLine e)
      | Inr r \<Rightarrow> if \<not> ok r then Some (createApiError onLine (httpError r)) else None)"

subsection \<open>The retry schedule in the words of the specification\<close>

text \<open>
  An attempt is followed by another one, while attempts remain, when it resolved with a
  status of 500 or more or was rejected by anything but a cancellation.
\<close>

fun retried :: "FetchOutcome \<Rightarrow> bool" where
  "retried (Resolved r) = (500 \<le> status r)"
| "retried (Rejected e) = (name e \<noteq> (js ''AbortError''))"

fun outcomeResult :: "FetchOutcome \<Rightarrow> JsError option + Response" where
  "outcomeResult (Resolved r) = Inr r"
| "outcomeResult (Rejected e) = Inl (Some e)"

text \<open>
  Attempt 0 is immediate; attempt \<open>i > 0\<close> comes after a sleep of
  \<open>min(1000 * 2^(i-1), 8000)\<close> ms. \<open>specTrace k\<close> is the run of the attempts
  \<open>0, ..., k\<close>.
\<close>

definition attemptEvents :: "nat \<Rightarrow> Event list" where
  "attemptEvents i =
     (if i > 0 then [Sleep (min (1000 * 2 ^ (i - 1)) 8000), SetRetryCount i] else []) @ [Fetch i]"

definition specTrace :: "nat \<Rightarrow> Event list" where
  "specTrace k = concat (map attemptEvents [0..<Suc k])"

section \<open>ScoreEngine\<close>

text \<open>\<open>s.split(c)\<close> for a one-character separator: one piece more than separators.\<close>

fun splitOn :: "codeunit \<Rightarrow> jsstring \<Rightarrow> jsstring list" where
  "splitOn c [] = [[]]"
| "splitOn c (x # xs) =
     (if x = c then [] # splitOn c xs
      else (case splitOn c xs of [] \<Rightarrow> [[x]] | p # ps \<Rightarrow> (x # p) # ps))"

text \<open>
  \<open>s.split(/[...]+/)\<close> for a character class \<open>P\<close>: the pieces between the maximal
  runs of code units of the class, with an empty piece before a run at the start and
  after a run at the end. \<open>inRun\<close> says that the previous code unit was of the class,
  \<open>piece\<close> is the current piece, reversed.
\<close>

fun splitRuns :: "(codeunit \<Rightarrow> bool) \<Rightarrow> bool \<Rightarrow> jsstring \<Rightarrow> jsstring \<Rightarrow> jsstring list" where
  "splitRuns P inRun piece [] = [rev piece]"
| "splitRuns P inRun piece (c # cs) =
     (if P c then
        (if inRun then splitRuns P True [] cs else rev piece # splitRuns P True [] cs)
      else splitRuns P False (c # piece) cs)"

definition splitRegex :: "(codeunit \<Rightarrow> bool) \<Rightarrow> jsstring \<Rightarrow> jsstring list" where
  "splitRegex P s = splitRuns P False [] s"

text \<open>The class \<open>[.!?]\<close>.\<close>

definition isSentenceEnd :: "codeunit \<Rightarrow> bool" where
  "isSentenceEnd c = (c = unitOf CHR ''.'' \<or> c = unitOf CHR ''!'' \<or> c = unitOf CHR ''?'')"

text \<open>
  The class \<open>\w\<close> of a regular expression without flags: the letters and digits of
  ASCII and the underscore.
\<close>

definition isWordChar :: "codeunit \<Rightarrow> bool" where
  "isWordChar c =
     (let n = uint c
      in (48 \<le> n \<and> n \<le> 57) \<or> (65 \<le> n \<and> n \<le> 90) \<or> n = 95 \<or> (97 \<le> n \<and> n \<le> 122))"

text \<open>
  The white space and the line terminators that \<open>trim\<close> strips: U+0009 to U+000D,
  U+0020, U+00A0, U+1680, U+2000 to U+200A, U+2028, U+2029, U+202F, U+205F, U+3000 and
  U+FEFF.
\<close>

definition isSpace :: "codeunit \<Rightarrow> bool" where
  "isSpace c =
     (let n = uint c
      in (9 \<le> n \<and> n \<le> 13) \<or> n = 32 \<or> n = 160 \<or> n = 5760 \<or> (8192 \<le> n \<and> n \<le> 8202)
         \<or> n = 8232 \<or> n = 8233 \<or> n = 8239 \<or> n = 8287 \<or> n = 12288 \<or> n = 65279)"

definition trim :: "jsstring \<Rightarrow> jsstring" where
  "trim s = rev (dropWhile isSpace (rev (dropWhile isSpace s)))"

text \<open>
  \<open>String.prototype.toLowerCase\<close> follows the case mappings of Unicode, which are the
  engine's: the functions below take it as the parameter \<open>toLowerCase\<close>.
  \<open>asciiToLowerCase\<close> is what it does on a text of ASCII.
\<close>

definition asciiToLowerCase :: "jsstring \<Rightarrow> jsstring" where
  "asciiToLowerCase s = map (\<lambda>c. if 65 \<le> uint c \<and> uint c \<le> 90 then c + 32 else c) s"

definition expectedWords :: "int \<Rightarrow> rat" where
  "expectedWords len = dbl (dbl (of_int len / 60) * 150)"

text \<open>
  \<open>Math.max(0, 100 - (Math.abs(words - expectedWords) / expectedWords) * 100)\<close>.
  \<open>words\<close> is the length of a \<open>split\<close>, so at least 1: when \<open>expectedWords\<close> is \<open>0\<close>
  the quotient is \<open>+Infinity\<close>, the difference \<open>-Infinity\<close> and the maximum \<open>0\<close>.
\<close>

definition timingScore :: "nat \<Rightarrow> rat \<Rightarrow> rat" where
  "timingScore words expected =
     (if expected = 0 then 0
      else max 0 (dbl (100 - dbl (dbl (\<bar>dbl (of_nat words - expected)\<bar> / expected) * 100))))"

definition scriptTextOf :: "ApiResults \<Rightarrow> jsstring" where
  "scriptTextOf r =
     (case r of
        Text t \<Rightarrow> t
      | Structured a \<Rightarrow> (case script a of None \<Rightarrow> [] | Some t \<Rightarrow> t))"

definition sentencesOf :: "jsstring \<Rightarrow> jsstring list" where
  "sentencesOf scriptText = filter (\<lambda>s. length (trim s) > 0) (splitRegex isSentenceEnd scriptText)"

definition clarityScore :: "jsstring \<Rightarrow> rat" where
  "clarityScore scriptText =
     (let words = length (splitOn (unitOf CHR '' '') scriptText);
          sentences = sentencesOf scriptText;
          avgWordsPerSentence =
            (if length sentences > 0 then dbl (of_nat words / of_nat (length sentences)) else 15)
      in max 0 (dbl (100 - dbl (\<bar>dbl (avgWordsPerSentence - 15)\<bar> * 5))))"

definition engagementScore :: "(jsstring \<Rightarrow> jsstring) \<Rightarrow> jsstring \<Rightarrow> bool \<Rightarrow> rat" where
  "engagementScore toLowerCase scriptText cta =
     (let hasQuestions = (unitOf CHR ''?'' \<in> set scriptText);
          hasCTA = (cta \<and>
            (includesStr (toLowerCase scriptText) (js ''subscribe'') \<or>
             includesStr (toLowerCase scriptText) (js ''follow'') \<or>
             includesStr (toLowerCase scriptText) (js ''like'')))
      in dbl (dbl (70 + (if hasQuestions then 15 else 0)) + (if hasCTA then 15 else 0)))"

text \<open>
  \<open>uniqueWords.size\<close>: the number of distinct pieces of the lower-cased text between
  runs of \<open>\W\<close>. The divisor \<open>words\<close> is at least 1.
\<close>

definition creativityScore :: "(jsstring \<Rightarrow> jsstring) \<Rightarrow> jsstring \<Rightarrow> rat" where
  "creativityScore toLowerCase scriptText =
     (let words = length (splitOn (unitOf CHR '' '') scriptText);
          uniqueWords = remdups (splitRegex (\<lambda>c. \<not> isWordChar c) (toLowerCase scriptText))
      in min 100 (dbl (dbl (of_nat (length uniqueWords) / of_nat words) * 200)))"

text \<open>
  \<open>calculateScores\<close>: \<open>None\<close> when it returns without calling \<open>setScoreData\<close>
  (\<open>!apiResults\<close>), else the value it stores. The sum of the four scores is taken from
  the left, each sum rounded.
\<close>

definition calculateScores ::
  "(jsstring \<Rightarrow> jsstring) \<Rightarrow> ApiResults option \<Rightarrow> int \<Rightarrow> bool \<Rightarrow> ScoreData option" where
  "calculateScores toLowerCase results len cta =
     (case results of
        None \<Rightarrow> None
      | Some r \<Rightarrow>
          if \<not> resultsTruthy results then None
          else
            (let scriptText = scriptTextOf r;
                 words = length (splitOn (unitOf CHR '' '') scriptText);
                 t = timingScore words (expectedWords len);
                 c = clarityScore scriptText;
                 e = engagementScore toLowerCase scriptText cta;
                 v = creativityScore toLowerCase scriptText
             in Some \<lparr> overall = jsRound (dbl (dbl (dbl (dbl (t + c) + e) + v) / 4)),
                       creativity = jsRound v,
                       engagement = jsRound e,
                       clarity = jsRound c,
                       timing = jsRound t \<rparr>))"

section \<open>RefinementChatEngine\<close>

text \<open>\<open>xs.slice(-n)\<close> for a positive \<open>n\<close>: the last \<open>n\<close> elements, all of them if fewer.\<close>

definition sliceLast :: "nat \<Rightarrow> 'a list \<Rightarrow> 'a list" where
  "sliceLast n xs = drop (length xs - n) xs"

definition clearOptions :: "jsstring \<Rightarrow> ChatMessage list \<Rightarrow> ChatMessage list" where
  "clearOptions messageId msgs =
     map (\<lambda>msg. if msgId msg = messageId then msg\<lparr>options := None\<rparr> else msg) msgs"

text \<open>
  \<open>handleChatResponse\<close> up to the timer it sets: the options of the answered question
  are cleared when a (non-empty) message id is given, and the user's turn is appended
  to the last 49 turns. \<open>now\<close> is the clock, read for the id and for the timestamp.
\<close>

definition handleChatResponse ::
  "int \<Rightarrow> jsstring \<Rightarrow> jsstring option \<Rightarrow> WizardState \<Rightarrow> WizardState" where
  "handleChatResponse now response messageId s =
     (let s1 = (case messageId of
                  None \<Rightarrow> s
                | Some m \<Rightarrow> if m \<noteq> [] then s\<lparr>chatMessages := clearOptions m (chatMessages s)\<rparr>
                            else s);
          s2 = snd (generateMessageId now s1)
      in s2\<lparr>chatMessages :=
              sliceLast 49 (chatMessages s2) @
                [\<lparr> msgId = fst (generateMessageId now s1), msgType = User, content = response,
                   options = None, timestamp = now \<rparr>],
            userInput := [], isTyping := True\<rparr>)"

text \<open>
  \<open>typeMessage(text, callback)\<close>, taken as one step from its call to the end of the
  animation: \<open>isTyping\<close> is off and the callback has run. What the animation leaves
  in \<open>typingText\<close> depends on when React runs the queued updaters
  \<open>prev => prev + cleanText[index]\<close> relative to the \<open>index++\<close> that follows each of
  them; it is the parameter \<open>revealed\<close>.
\<close>

definition typeMessage ::
  "jsstring \<Rightarrow> (WizardState \<Rightarrow> WizardState) \<Rightarrow> WizardState \<Rightarrow> WizardState" where
  "typeMessage revealed callback s = callback (s\<lparr>typingText := revealed, isTyping := False\<rparr>)"

text \<open>\<open>(options || []).filter(opt => opt != null && opt !== '')\<close>\<close>

definition keptOptions :: "jsstring option list \<Rightarrow> jsstring list" where
  "keptOptions opts =
     concat (map (\<lambda>opt. case opt of None \<Rightarrow> [] | Some t \<Rightarrow> if t \<noteq> [] then [t] else []) opts)"

record QuestionResponse =
  question :: "jsstring option"
  questionOptions :: "jsstring option list"

text \<open>The closing message ends with the ellipsis U+2026.\<close>

definition closingMessage :: jsstring where
  "closingMessage = js ''Great! Generating the final script'' @ [0x2026]"

text \<open>
  The two callbacks that \<open>handleChatResponse\<close> hands to \<open>typeMessage\<close>: both append an
  assistant turn to the whole previous history.
\<close>

definition appendQuestion ::
  "int \<Rightarrow> jsstring \<Rightarrow> jsstring option list \<Rightarrow> WizardState \<Rightarrow> WizardState" where
  "appendQuestion now cleanedQuestion opts s =
     (let s1 = snd (generateMessageId now s)
      in s1\<lparr>chatMessages :=
              chatMessages s1 @
                [\<lparr> msgId = fst (generateMessageId now s), msgType = Ai, content = cleanedQuestion,
                   options = Some (keptOptions opts), timestamp = now \<rparr>]\<rparr>)"

definition appendClosing :: "int \<Rightarrow> WizardState \<Rightarrow> WizardState" where
  "appendClosing now s =
     (let s1 = snd (generateMessageId now s)
      in s1\<lparr>chatMessages :=
              chatMessages s1 @
                [\<lparr> msgId = fst (generateMessageId now s), msgType = Ai, content = closingMessage,
                   options = None, timestamp = now \<rparr>]\<rparr>)"

text \<open>
  The body of the timer of \<open>handleChatResponse\<close>, given the answer of
  \<open>fetchNextQuestion\<close>: a truthy question is typed and appended, anything else types
  the closing message (after which a further timer enters Result, see \<open>chatCompleted\<close>).
  \<open>cleanTextForTyping\<close> rests on the engine's \<open>JSON.parse\<close> and is a parameter.
\<close>

definition handleNextQuestion ::
  "int \<Rightarrow> jsstring \<Rightarrow> (jsstring \<Rightarrow> jsstring) \<Rightarrow> QuestionResponse \<Rightarrow> WizardState \<Rightarrow> WizardState" where
  "handleNextQuestion now revealed cleanTextForTyping nextQ s =
     (case question nextQ of
        Some q \<Rightarrow>
          if q \<noteq> [] then
            typeMessage revealed
              (appendQuestion now (cleanTextForTyping q) (questionOptions nextQ)) s
          else typeMessage revealed (appendClosing now) s
      | None \<Rightarrow> typeMessage revealed (appendClosing now) s)"

subsection \<open>fetchNextQuestion\<close>

definition noQuestion :: QuestionResponse where
  "noQuestion = \<lparr> question = None, questionOptions = [] \<rparr>"

text \<open>
  \<open>fetchNextQuestion\<close> after its request: \<open>result\<close> is what \<open>fetchWithRetry\<close> returned
  or threw, \<open>parsed\<close> what \<open>res.json()\<close> gives (\<open>None\<close> when it rejects). Every
  exception ends in the \<open>catch\<close>, which returns \<open>{question: null, options: []}\<close>.
\<close>

definition fetchNextQuestion ::
  "(JsError option + Response) \<Rightarrow> QuestionResponse option \<Rightarrow> QuestionResponse" where
  "fetchNextQuestion result parsed =
     (case result of
        Inl e \<Rightarrow> noQuestion
      | Inr res \<Rightarrow>
          if \<not> ok res then noQuestion
          else (case parsed of None \<Rightarrow> noQuestion | Some data \<Rightarrow> data))"

subsection \<open>The first question\<close>

text \<open>
  The body of the effect on entering step 3.5, up to the call of
  \<open>fetchNextQuestion\<close>: the state after it, and whether it started the fetch.
\<close>

definition firstQuestionEffect :: "WizardState \<Rightarrow> WizardState \<times> bool" where
  "firstQuestionEffect s =
     (if currentStep s = 7 / 2 \<and> chatMessages s = [] \<and> \<not> isLoading s
         \<and> \<not> hasAttemptedQuestionFetch s then
        (s\<lparr>hasAttemptedQuestionFetch := True, isLoading := True\<rparr>, True)
      else (s, False))"

text \<open>
  The state that the dependency array of the effect reads:
  \<open>[currentStep, chatMessages.length, isLoading, ...]\<close>. The other three entries are the
  callbacks \<open>fetchNextQuestion\<close>, \<open>typeMessage\<close> and \<open>cleanTextForTyping\<close>. The last two
  never change. The first changes with the history and the settings; a run of the effect
  that only such a change brings about comes after the render of the effect's own
  update, when the flag of the run that fetched is \<open>false\<close> already, and it finds the
  condition of the body as the run before it did.
\<close>

definition firstQuestionDeps :: "WizardState \<Rightarrow> Step \<times> nat \<times> bool" where
  "firstQuestionDeps s = (currentStep s, length (chatMessages s), isLoading s)"

definition fallbackMessage :: "int \<Rightarrow> jsstring \<Rightarrow> WizardState \<Rightarrow> WizardState" where
  "fallbackMessage now text s =
     (let s1 = snd (generateMessageId now s)
      in s1\<lparr>isLoading := False, questionFetchFailed := True,
            chatMessages :=
              [\<lparr> msgId = fst (generateMessageId now s), msgType = Ai, content = text,
                 options = Some [], timestamp = now \<rparr>]\<rparr>)"

definition firstQuestionTyped ::
  "bool \<Rightarrow> int \<Rightarrow> jsstring \<Rightarrow> jsstring option list \<Rightarrow> WizardState \<Rightarrow> WizardState" where
  "firstQuestionTyped isMounted now cleanedQuestion opts s =
     (if \<not> isMounted then s
      else
        (let s1 = snd (generateMessageId now s)
         in s1\<lparr>chatMessages :=
                 [\<lparr> msgId = fst (generateMessageId now s), msgType = Ai,
                    content = cleanedQuestion, options = Some (keptOptions opts),
                    timestamp = now \<rparr>],
               isLoading := False\<rparr>))"

text \<open>
  The \<open>then\<close> handler of the effect, as a function of the flag \<open>isMounted\<close> of the
  effect run that started the fetch. The flag is not free: \<open>render\<close> below keeps it, and
  \<open>questionFetchSettled\<close> hands it to the handler.
\<close>

definition firstQuestionResolved ::
  "bool \<Rightarrow> int \<Rightarrow> jsstring \<Rightarrow> (jsstring \<Rightarrow> jsstring) \<Rightarrow> QuestionResponse \<Rightarrow> WizardState
     \<Rightarrow> WizardState" where
  "firstQuestionResolved isMounted now revealed cleanTextForTyping firstQ s =
     (if \<not> isMounted then s
      else
        (case question firstQ of
           Some q \<Rightarrow>
             if q \<noteq> [] \<and> trim q \<noteq> [] then
               typeMessage revealed
                 (firstQuestionTyped isMounted now (cleanTextForTyping q)
                    (questionOptions firstQ)) s
             else fallbackMessage now
                    (js ''Unable to generate refinement questions. You can skip this step.'') s
         | None \<Rightarrow>
             fallbackMessage now
               (js ''Unable to generate refinement questions. You can skip this step.'') s))"

text \<open>The \<open>catch\<close> handler of the effect.\<close>

definition firstQuestionRejected :: "bool \<Rightarrow> int \<Rightarrow> WizardState \<Rightarrow> WizardState" where
  "firstQuestionRejected isMounted now s =
     (if \<not> isMounted then s
      else fallbackMessage now
             (js ''Error loading questions. Please skip this step to continue.'') s)"

section \<open>The end of a generation request\<close>

text \<open>
  \<open>fetchFinalScriptRef.current\<close> after its request: on success the normalized result
  is stored, on an exception the classified error; the \<open>finally\<close> block resets the
  loading flag and the retry count in both cases.
\<close>

definition fetchFinalScript_succeeded :: "ApiResults \<Rightarrow> WizardState \<Rightarrow> WizardState" where
  "fetchFinalScript_succeeded final s =
     s\<lparr>apiResults := Some final, loadingProgress := 100, isLoading := False, retryCount := 0\<rparr>"

definition fetchFinalScript_failed :: "bool \<Rightarrow> JsError \<Rightarrow> WizardState \<Rightarrow> WizardState" where
  "fetchFinalScript_failed onLine error s =
     s\<lparr>apiError := Some (createApiError onLine error), isLoading := False, retryCount := 0\<rparr>"

section \<open>The effects of the component\<close>

text \<open>
  The effect on \<open>[apiResults, currentStep, calculateScores]\<close>: at Result with a truthy
  result it stores the scores of the result.
\<close>

definition scoreEffect :: "(jsstring \<Rightarrow> jsstring) \<Rightarrow> WizardState \<Rightarrow> WizardState" where
  "scoreEffect toLowerCase s =
     (if resultsTruthy (apiResults s) \<and> currentStep s = 4 then
        (case calculateScores toLowerCase (apiResults s) (scriptLength s) (ctaInclusion s) of
           None \<Rightarrow> s
         | Some d \<Rightarrow> s\<lparr>scoreData := Some d\<rparr>)
      else s)"

text \<open>
  The dependencies of the score effect (\<open>calculateScores\<close> is a callback on
  \<open>[apiResults, scriptLength, ctaInclusion]\<close>) and of the generation effect.
\<close>

definition scoreDeps :: "WizardState \<Rightarrow> ApiResults option \<times> Step \<times> int \<times> bool" where
  "scoreDeps s = (apiResults s, currentStep s, scriptLength s, ctaInclusion s)"

definition generationDeps :: "WizardState \<Rightarrow> Step \<times> ApiResults option \<times> bool" where
  "generationDeps s = (currentStep s, apiResults s, isLoading s)"

text \<open>
  The component between two renders: its state, the dependencies that each of the three
  effects saw when it last ran (\<open>None\<close> before the first render), the \<open>isMounted\<close> flags
  of the effect runs whose question fetch has not settled yet (oldest first), and the
  generation requests issued so far.
\<close>

record Component =
  ui :: WizardState
  scoreEffectDeps :: "(ApiResults option \<times> Step \<times> int \<times> bool) option"
  generationEffectDeps :: "(Step \<times> ApiResults option \<times> bool) option"
  questionEffectDeps :: "(Step \<times> nat \<times> bool) option"
  questionFetches :: "bool list"
  issued :: "FinalRequest list"

text \<open>
  What React does after a render, for the three effects in the order of the source: an
  effect whose dependencies are the ones of its last run is skipped; for any other, the
  cleanup of its last run is called first, and then its body. The cleanup of the
  first-question effect sets the flag \<open>isMounted\<close> of that run to \<open>false\<close>; the other two
  effects have no cleanup. At most one of the three bodies changes the state (the
  first needs a result at step 4, the second no result at step 4, the third step 3.5),
  so running them one after the other on the state is the same as running each on the
  state of the render.
\<close>

definition render :: "(jsstring \<Rightarrow> jsstring) \<Rightarrow> Component \<Rightarrow> Component" where
  "render toLowerCase c =
     (let s0 = ui c;
          runScore = (scoreEffectDeps c \<noteq> Some (scoreDeps s0));
          runGeneration = (generationEffectDeps c \<noteq> Some (generationDeps s0));
          runQuestion = (questionEffectDeps c \<noteq> Some (firstQuestionDeps s0));
          s1 = (if runScore then scoreEffect toLowerCase s0 else s0);
          g = (if runGeneration then generationEffect s1 else (s1, None));
          q = (if runQuestion then firstQuestionEffect (fst g) else (fst g, False))
      in \<lparr> ui = fst q,
           scoreEffectDeps = Some (scoreDeps s0),
           generationEffectDeps = Some (generationDeps s0),
           questionEffectDeps = Some (firstQuestionDeps s0),
           questionFetches =
             (if runQuestion
              then map (\<lambda>flag. False) (questionFetches c) @ (if snd q then [True] else [])
              else questionFetches c),
           issued = issued c @ (case snd g of None \<Rightarrow> [] | Some request \<Rightarrow> [request]) \<rparr>)"

text \<open>
  A handler or a callback changes the state; the render that follows it is a call of
  \<open>render\<close>.
\<close>

definition act :: "(WizardState \<Rightarrow> WizardState) \<Rightarrow> Component \<Rightarrow> Component" where
  "act f c = c\<lparr>ui := f (ui c)\<rparr>"

text \<open>
  A component whose last render was at the state \<open>s\<close>, with no question fetch
  outstanding.
\<close>

definition atRest :: "WizardState \<Rightarrow> Component" where
  "atRest s =
     \<lparr> ui = s, scoreEffectDeps = Some (scoreDeps s),
       generationEffectDeps = Some (generationDeps s),
       questionEffectDeps = Some (firstQuestionDeps s),
       questionFetches = [], issued = [] \<rparr>"

text \<open>
  The oldest outstanding question fetch settles with the answer \<open>firstQ\<close>: the \<open>then\<close>
  handler runs with the flag of the effect run that started the fetch.
\<close>

definition questionFetchSettled ::
  "int \<Rightarrow> jsstring \<Rightarrow> (jsstring \<Rightarrow> jsstring) \<Rightarrow> QuestionResponse \<Rightarrow> Component \<Rightarrow> Component" where
  "questionFetchSettled now revealed cleanTextForTyping firstQ c =
     (case questionFetches c of
        [] \<Rightarrow> c
      | isMounted # rest \<Rightarrow>
          c\<lparr>ui := firstQuestionResolved isMounted now revealed cleanTextForTyping firstQ (ui c),
            questionFetches := rest\<rparr>)"

section \<open>SessionStore\<close>

text \<open>
  What the restore effect finds under the key \<open>ideaGenerator_state\<close>: nothing (or the
  empty string), something that makes \<open>getItem\<close>, \<open>JSON.parse\<close> or the reads of the
  parsed value throw, or a snapshot.
\<close>

datatype Stored = NoItem | Corrupt | Saved Snapshot

definition restoreFailed :: ModalConfig where
  "restoreFailed =
     \<lparr> modalShow = True, modalTitle = js ''Restore Failed'',
       modalMessage = js ''Failed to restore your previous session. Starting fresh.'' \<rparr>"

text \<open>
  The restore effect. \<open>now\<close> is \<open>Date.now()\<close>; \<open>!state.timestamp\<close> holds for a missing
  timestamp and for \<open>0\<close>.
\<close>

definition restore :: "int \<Rightarrow> Stored \<Rightarrow> WizardState \<Rightarrow> WizardState" where
  "restore now stored s =
     (if isExpanded s then s
      else
        (case stored of
           NoItem \<Rightarrow> s
         | Corrupt \<Rightarrow> s\<lparr>modalConfig := restoreFailed\<rparr>
         | Saved state \<Rightarrow>
             (case snapshotTimestamp state of
                None \<Rightarrow> s
              | Some t \<Rightarrow>
                  if t = 0 then s
                  else if now - t < 3600000 then
                    s\<lparr>currentStep := currentStep state,
                      selectedStyle := selectedStyle state,
                      customStyleName := customStyleName state,
                      broadTopic := broadTopic state,
                      keyword := keyword state,
                      scriptLength := scriptLength state,
                      selectedLanguage := selectedLanguage state,
                      selectedTone := selectedTone state,
                      ctaInclusion := ctaInclusion state,
                      chatMessages := chatMessages state,
                      hasUnsavedChanges := True\<rparr>
                  else s)))"

section \<open>Response normalization\<close>

lemma normalizeResult_string:
  "normalizeResult ns (JStr s) = Inr (JStr s)"
  by (simp add: normalizeResult_def)

lemma normalizeResult_result_string:
  "map_of kvs (js ''result'') = Some (JStr s) \<Longrightarrow> normalizeResult ns (JObj kvs) = Inr (JStr s)"
  by (simp add: normalizeResult_def)

lemma getProp_truthy_total: "truthy r \<Longrightarrow> \<exists>c. getProp r k = Inr c"
  by (cases r) simp_all

lemma content_of_non_object:
  "truthy r \<Longrightarrow> typeof r \<noteq> TObject \<Longrightarrow> getProp r k = Inr JUndefined"
  by (cases r) simp_all

lemma normalizeResult_result_object:
  "map_of kvs (js ''result'') = Some r \<Longrightarrow> typeof r = TObject \<Longrightarrow> r \<noteq> JNull
     \<Longrightarrow> normalizeResult ns (JObj kvs) = Inr r"
  by (cases r) (simp_all add: normalizeResult_def)

text \<open>
  The third branch never decides: whenever it is reached, \<open>input.result\<close> is a truthy
  boolean or number, whose \<open>content\<close> is \<open>undefined\<close>. So on an object input the
  function returns \<open>input.result\<close> when that is a string or a non-null object, and the
  input itself otherwise.
\<close>

lemma normalizeResult_object_cases:
  "normalizeResult ns (JObj kvs) =
     (case map_of kvs (js ''result'') of
        Some (JStr s) \<Rightarrow> Inr (JStr s)
      | Some (JArr xs) \<Rightarrow> Inr (JArr xs)
      | Some (JObj ps) \<Rightarrow> Inr (JObj ps)
      | _ \<Rightarrow> Inr (JObj kvs))"
  by (simp add: normalizeResult_def split: option.splits jsval.splits)

lemma normalizeResult_never_throws: "\<exists>v. normalizeResult ns input = Inr v"
proof (cases input)
  case (JObj kvs)
  then show ?thesis
    by (simp add: normalizeResult_object_cases split: option.splits jsval.splits)
qed (simp_all add: normalizeResult_def)

text \<open>
  Claim C1. Normalization passes a bare string through, yields a string \<open>result\<close> field,
  yields an object \<open>result\<close> field, and is said to yield \<open>result.content\<close> when that is a
  string, so that \<open>{result: {content: "z"}}\<close> would normalize to \<open>"z"\<close>. On that input
  the code returns the object \<open>{content: "z"}\<close>: the branch for an object \<open>result\<close>
  stands before the branch for \<open>result.content\<close> and takes every such input.
\<close>

theorem normalizeResult_content_envelope:
  "normalizeResult ns (JObj [(js ''result'', JObj [(js ''content'', JStr (js ''z''))])])
     = Inr (JObj [(js ''content'', JStr (js ''z''))])"
  by (simp add: normalizeResult_def)

text \<open>
  Claim C10. \<open>normalizeResult\<close> applied to \<open>null\<close> or to \<open>undefined\<close> returns the empty
  string: the test \<open>input == null\<close> holds for both and is the first branch.
\<close>

theorem normalizeResult_nullish:
  "normalizeResult ns JNull = Inr (JStr []) \<and> normalizeResult ns JUndefined = Inr (JStr [])"
  by (simp add: normalizeResult_def)

section \<open>Step progression\<close>

lemma stepOrder_cases:
  "a \<in> set stepOrder \<Longrightarrow> a = 1 \<or> a = 2 \<or> a = 3 \<or> a = 7 / 2 \<or> a = 4"
  by (simp add: stepOrder_def)

lemma handleNext_step:
  "currentStep (handleNext s) =
     (if currentStep s = 3 then 7 / 2
      else if currentStep s < 4 \<and> currentStep s \<noteq> 7 / 2 then currentStep s + 1
      else currentStep s)"
  by (simp add: handleNext_def)

lemma handleBack_step:
  "currentStep (handleBack s) =
     (if currentStep s = 7 / 2 then 3
      else if currentStep s > 1 then currentStep s - 1
      else currentStep s)"
  by (simp add: handleBack_def)

lemma handleNext_fixed: "(handleNext s = s) = (currentStep s = 7 / 2 \<or> 4 \<le> currentStep s)"
proof
  assume a: "handleNext s = s"
  have "currentStep (handleNext s) = currentStep s"
    by (rule arg_cong [OF a])
  then show "currentStep s = 7 / 2 \<or> 4 \<le> currentStep s"
    unfolding handleNext_step
    by (cases "currentStep s = 3"; cases "currentStep s < 4"; cases "currentStep s = 7 / 2")
      simp_all
next
  assume "currentStep s = 7 / 2 \<or> 4 \<le> currentStep s"
  then show "handleNext s = s"
    unfolding handleNext_def by (cases "currentStep s = 7 / 2") simp_all
qed

text \<open>
  Claim C4, as the code has it. From Style, Topic and Settings \<open>handleNext\<close> moves one
  place forward in the order of the steps (from Settings by the transition of its own
  into Refinement), and it changes nothing at Refinement and at Result. \<open>handleBack\<close>
  moves one place back from Topic, Settings and Refinement, changes nothing at Style,
  and goes from Result to Settings, two places back, passing over Refinement. Both keep
  the step among the five.
\<close>

theorem step_transitions:
  assumes "currentStep s \<in> set stepOrder"
  shows "currentStep (handleNext s) \<in> set stepOrder
       \<and> currentStep (handleBack s) \<in> set stepOrder
       \<and> indexOf (currentStep (handleNext s)) stepOrder =
           indexOf (currentStep s) stepOrder
             + (if currentStep s = 7 / 2 \<or> currentStep s = 4 then 0 else 1)
       \<and> (handleNext s = s) = (currentStep s = 7 / 2 \<or> currentStep s = 4)
       \<and> (currentStep (handleNext s) = 7 / 2) = (currentStep s = 3 \<or> currentStep s = 7 / 2)
       \<and> indexOf (currentStep (handleBack s)) stepOrder =
           indexOf (currentStep s) stepOrder
             - (if currentStep s = 1 then 0 else if currentStep s = 4 then 2 else 1)"
proof -
  from assms have c: "currentStep s = 1 \<or> currentStep s = 2 \<or> currentStep s = 3
      \<or> currentStep s = 7 / 2 \<or> currentStep s = 4"
    by (rule stepOrder_cases)
  have fixed: "(handleNext s = s) = (currentStep s = 7 / 2 \<or> currentStep s = 4)"
    using c by (auto simp: handleNext_fixed)
  have steps: "currentStep (handleNext s) \<in> set stepOrder
       \<and> currentStep (handleBack s) \<in> set stepOrder
       \<and> indexOf (currentStep (handleNext s)) stepOrder =
           indexOf (currentStep s) stepOrder
             + (if currentStep s = 7 / 2 \<or> currentStep s = 4 then 0 else 1)
       \<and> (currentStep (handleNext s) = 7 / 2) = (currentStep s = 3 \<or> currentStep s = 7 / 2)
       \<and> indexOf (currentStep (handleBack s)) stepOrder =
           indexOf (currentStep s) stepOrder
             - (if currentStep s = 1 then 0 else if currentStep s = 4 then 2 else 1)"
    using c by (elim disjE) (simp_all add: handleNext_step handleBack_step stepOrder_def)
  from fixed steps show ?thesis by simp
qed

theorem step_transitions_witness:
  "currentStep (initialState\<lparr>currentStep := 3\<rparr>) \<in> set stepOrder
   \<and> currentStep (handleNext (initialState\<lparr>currentStep := 3\<rparr>)) = 7 / 2
   \<and> indexOf (currentStep (handleNext (initialState\<lparr>currentStep := 3\<rparr>))) stepOrder = 3
   \<and> indexOf (currentStep (handleBack (initialState\<lparr>currentStep := 3\<rparr>))) stepOrder = 1"
proof -
  have h: "currentStep (initialState\<lparr>currentStep := 3\<rparr>) \<in> set stepOrder"
    by (simp add: stepOrder_def)
  show ?thesis
    using h step_transitions [OF h] by (simp add: stepOrder_def)
qed

text \<open>
  The claim as it is written fails at Result: \<open>handleBack\<close> computes \<open>4 - 1\<close> and lands
  on Settings, which is not the step before Result in the order of the steps.
\<close>

theorem retreat_from_result_counterexample:
  "currentStep (handleBack (initialState\<lparr>currentStep := 4\<rparr>)) = 3
   \<and> \<not> (indexOf (currentStep (handleBack (initialState\<lparr>currentStep := 4\<rparr>))) stepOrder + 1
          = indexOf (currentStep (initialState\<lparr>currentStep := 4\<rparr>)) stepOrder)"
  by (simp add: handleBack_def stepOrder_def)

section \<open>Retreat and re-entry\<close>

lemma handleBack_from_refinement:
  "currentStep s = 7 / 2 \<Longrightarrow>
   handleBack s =
     s\<lparr>currentStep := 3, chatMessages := [], skipRefinement := False,
       questionFetchFailed := False, hasAttemptedQuestionFetch := False\<rparr>"
  by (simp add: handleBack_def)

lemma handleBack_from_result:
  "currentStep s = 4 \<Longrightarrow> handleBack s = s\<lparr>currentStep := 3\<rparr>"
  by (simp add: handleBack_def)

lemma handleNext_from_settings:
  "currentStep s = 3 \<Longrightarrow>
   handleNext s =
     s\<lparr>currentStep := 7 / 2, questionFetchFailed := False,
       hasAttemptedQuestionFetch := False\<rparr>"
  by (simp add: handleNext_def)

text \<open>
  Claim C7, as the code has it. Retreating from Refinement (state \<open>s\<close>) goes to
  Settings, empties the conversation history and resets the skip flag, the
  question-fetch-failed flag and the has-attempted-fetch flag; the style, the custom
  style name, the topic, the keyword and the settings are as before. Advancing again
  at once enters Refinement with an empty history and the fetch of the first question
  not yet attempted. Retreating from Result (state \<open>t\<close>) goes to Settings as well and
  changes nothing but the step, so advancing after it enters Refinement with the whole
  history.
\<close>

theorem retreat_and_reentry:
  assumes "currentStep s = 7 / 2" and "currentStep t = 4"
  shows "handleBack s =
           s\<lparr>currentStep := 3, chatMessages := [], skipRefinement := False,
             questionFetchFailed := False, hasAttemptedQuestionFetch := False\<rparr>
       \<and> selectedStyle (handleBack s) = selectedStyle s
       \<and> customStyleName (handleBack s) = customStyleName s
       \<and> broadTopic (handleBack s) = broadTopic s
       \<and> keyword (handleBack s) = keyword s
       \<and> scriptLength (handleBack s) = scriptLength s
       \<and> selectedLanguage (handleBack s) = selectedLanguage s
       \<and> selectedTone (handleBack s) = selectedTone s
       \<and> ctaInclusion (handleBack s) = ctaInclusion s
       \<and> currentStep (handleNext (handleBack s)) = 7 / 2
       \<and> chatMessages (handleNext (handleBack s)) = []
       \<and> \<not> hasAttemptedQuestionFetch (handleNext (handleBack s))
       \<and> handleBack t = t\<lparr>currentStep := 3\<rparr>
       \<and> currentStep (handleNext (handleBack t)) = 7 / 2
       \<and> chatMessages (handleNext (handleBack t)) = chatMessages t"
proof -
  have hb: "handleBack s =
      s\<lparr>currentStep := 3, chatMessages := [], skipRefinement := False,
        questionFetchFailed := False, hasAttemptedQuestionFetch := False\<rparr>"
    using assms(1) by (rule handleBack_from_refinement)
  have frame: "selectedStyle (handleBack s) = selectedStyle s
       \<and> customStyleName (handleBack s) = customStyleName s
       \<and> broadTopic (handleBack s) = broadTopic s
       \<and> keyword (handleBack s) = keyword s
       \<and> scriptLength (handleBack s) = scriptLength s
       \<and> selectedLanguage (handleBack s) = selectedLanguage s
       \<and> selectedTone (handleBack s) = selectedTone s
       \<and> ctaInclusion (handleBack s) = ctaInclusion s"
    by (simp add: hb)
  have again: "currentStep (handleNext (handleBack s)) = 7 / 2
       \<and> chatMessages (handleNext (handleBack s)) = []
       \<and> \<not> hasAttemptedQuestionFetch (handleNext (handleBack s))"
    by (simp add: hb handleNext_def)
  have hbT: "handleBack t = t\<lparr>currentStep := 3\<rparr>"
    using assms(2) by (rule handleBack_from_result)
  have againT: "currentStep (handleNext (handleBack t)) = 7 / 2
       \<and> chatMessages (handleNext (handleBack t)) = chatMessages t"
    by (simp add: hbT handleNext_def)
  from hb frame again hbT againT show ?thesis
    by (simp only: simp_thms)
qed

text \<open>
  The witness is a state at Refinement with an answer and a question in the history and
  the three flags set, and the same state at Result.
\<close>

theorem retreat_and_reentry_witness:
  "handleBack
     (initialState\<lparr>currentStep := 7 / 2, keyword := js ''cats'',
        chatMessages := [\<lparr>msgId = js ''msg_6_1'', msgType = User, content = js ''Hello'',
              options = None, timestamp = 6\<rparr>,
            \<lparr>msgId = js ''msg_7_2'', msgType = Ai, content = js ''Which audience?'',
              options = Some [], timestamp = 7\<rparr>],
        skipRefinement := True, questionFetchFailed := True,
        hasAttemptedQuestionFetch := True\<rparr>)
   = initialState\<lparr>currentStep := 3, keyword := js ''cats''\<rparr>
   \<and> length (chatMessages (handleNext (handleBack
       (initialState\<lparr>currentStep := 4, keyword := js ''cats'',
          chatMessages := [\<lparr>msgId = js ''msg_6_1'', msgType = User, content = js ''Hello'',
              options = None, timestamp = 6\<rparr>,
            \<lparr>msgId = js ''msg_7_2'', msgType = Ai, content = js ''Which audience?'',
              options = Some [], timestamp = 7\<rparr>],
          skipRefinement := True, questionFetchFailed := True,
          hasAttemptedQuestionFetch := True\<rparr>)))) = 2"
proof -
  let ?u = "\<lparr>msgId = js ''msg_6_1'', msgType = User, content = js ''Hello'',
               options = None :: jsstring list option, timestamp = 6\<rparr>"
  let ?m = "\<lparr>msgId = js ''msg_7_2'', msgType = Ai, content = js ''Which audience?'',
               options = Some ([] :: jsstring list), timestamp = 7\<rparr>"
  let ?s = "initialState\<lparr>currentStep := 7 / 2, keyword := js ''cats'', chatMessages := [?u, ?m],
      skipRefinement := True, questionFetchFailed := True, hasAttemptedQuestionFetch := True\<rparr>"
  let ?t = "initialState\<lparr>currentStep := 4, keyword := js ''cats'', chatMessages := [?u, ?m],
      skipRefinement := True, questionFetchFailed := True, hasAttemptedQuestionFetch := True\<rparr>"
  have h1: "currentStep ?s = 7 / 2" and h2: "currentStep ?t = 4"
    by simp_all
  note th = retreat_and_reentry [OF h1 h2]
  from th have a: "handleBack ?s =
      ?s\<lparr>currentStep := 3, chatMessages := [], skipRefinement := False,
        questionFetchFailed := False, hasAttemptedQuestionFetch := False\<rparr>"
    by (rule conjunct1)
  from th have b: "chatMessages (handleNext (handleBack ?t)) = chatMessages ?t"
    by (elim conjE)
  have c: "?s\<lparr>currentStep := 3, chatMessages := [], skipRefinement := False,
        questionFetchFailed := False, hasAttemptedQuestionFetch := False\<rparr>
      = initialState\<lparr>currentStep := 3, keyword := js ''cats''\<rparr>"
    by (simp add: initialState_def)
  from a b c show ?thesis
    by simp
qed

text \<open>
  The claim as it is written fails in two ways. After a retreat from Result, entering
  Refinement again starts with the history of before. And the timer that
  \<open>handleChatResponse\<close> sets is not cancelled by the retreat from Refinement: when the
  answer of the service arrives after the retreat, its question is appended to the
  emptied history, and entering Refinement again starts with that question.
\<close>

theorem reentry_counterexample:
  "chatMessages (handleNext (handleBack
      (initialState\<lparr>currentStep := 4,
         chatMessages := [\<lparr>msgId = js ''msg_6_1'', msgType = User, content = js ''Hello'',
              options = None, timestamp = 6\<rparr>,
            \<lparr>msgId = js ''msg_7_2'', msgType = Ai, content = js ''Which audience?'',
              options = Some [], timestamp = 7\<rparr>]\<rparr>)))
   = [\<lparr>msgId = js ''msg_6_1'', msgType = User, content = js ''Hello'',
              options = None, timestamp = 6\<rparr>,
            \<lparr>msgId = js ''msg_7_2'', msgType = Ai, content = js ''Which audience?'',
              options = Some [], timestamp = 7\<rparr>]
   \<and> currentStep (handleNext (handleBack
      (initialState\<lparr>currentStep := 4,
         chatMessages := [\<lparr>msgId = js ''msg_6_1'', msgType = User, content = js ''Hello'',
              options = None, timestamp = 6\<rparr>,
            \<lparr>msgId = js ''msg_7_2'', msgType = Ai, content = js ''Which audience?'',
              options = Some [], timestamp = 7\<rparr>]\<rparr>))) = 7 / 2
   \<and> map content (chatMessages (handleNext
      (handleNextQuestion 9 (js ''Which tone?'') (\<lambda>x. x)
         \<lparr>question = Some (js ''Which tone?''), questionOptions = []\<rparr>
         (handleBack
            (handleChatResponse 8 (js ''Everyone'') None
               (initialState\<lparr>currentStep := 7 / 2,
                  chatMessages := [\<lparr>msgId = js ''msg_6_1'', msgType = User, content = js ''Hello'',
              options = None, timestamp = 6\<rparr>,
            \<lparr>msgId = js ''msg_7_2'', msgType = Ai, content = js ''Which audience?'',
              options = Some [], timestamp = 7\<rparr>]\<rparr>))))))
     = [js ''Which tone?'']"
  by (simp add: handleNext_def handleBack_def handleNextQuestion_def typeMessage_def
        appendQuestion_def handleChatResponse_def generateMessageId_def initialState_def
        sliceLast_def Let_def js_def)

section \<open>The effects after a change of step\<close>

lemma calculateScores_truthy:
  "resultsTruthy r \<Longrightarrow> \<exists>d. calculateScores lower r len cta = Some d"
  by (cases r) (simp_all add: calculateScores_def Let_def)

lemma scoreEffect_truthy:
  "resultsTruthy (apiResults s) \<Longrightarrow> currentStep s = 4 \<Longrightarrow>
   scoreEffect lower s
     = s\<lparr>scoreData := calculateScores lower (apiResults s) (scriptLength s) (ctaInclusion s)\<rparr>"
  using calculateScores_truthy [of "apiResults s" lower "scriptLength s" "ctaInclusion s"]
  by (auto simp: scoreEffect_def)

lemma scoreEffect_idle:
  "\<not> resultsTruthy (apiResults s) \<or> currentStep s \<noteq> 4 \<Longrightarrow> scoreEffect lower s = s"
  by (auto simp: scoreEffect_def)

lemma generationEffect_idle:
  "resultsTruthy (apiResults s) \<or> isLoading s \<or> currentStep s \<noteq> 4 \<Longrightarrow>
   generationEffect s = (s, None)"
  by (auto simp: generationEffect_def)

lemma firstQuestionEffect_idle:
  "currentStep s \<noteq> 7 / 2 \<Longrightarrow> firstQuestionEffect s = (s, False)"
  by (simp add: firstQuestionEffect_def)

text \<open>
  When the effect starts the fetch it sets \<open>isLoading\<close>, which is one of its own
  dependencies: the next render finds the dependencies changed, calls the cleanup of
  the run that started the fetch and so sets its \<open>isMounted\<close> to \<open>false\<close>, long before
  a request over the network can settle.
\<close>

lemma firstQuestionEffect_changes_deps:
  "snd (firstQuestionEffect s) \<Longrightarrow>
   firstQuestionDeps (fst (firstQuestionEffect s)) \<noteq> firstQuestionDeps s"
  by (auto simp: firstQuestionEffect_def firstQuestionDeps_def split: if_splits)

lemma first_question_fetch_unmounted:
  assumes "currentStep s = 3" and "chatMessages s = []" and "\<not> isLoading s"
  shows "questionFetches (render lower (act handleNext (atRest s))) = [True]
       \<and> questionFetches (render lower (render lower (act handleNext (atRest s)))) = [False]
       \<and> isLoading (ui (render lower (render lower (act handleNext (atRest s)))))"
  using assms
  by (simp add: render_def act_def atRest_def handleNext_def firstQuestionEffect_def
        firstQuestionDeps_def scoreDeps_def generationDeps_def scoreEffect_def
        generationEffect_def Let_def)

lemma enter_result_fields:
  assumes "enter = confirmSkip \<or> enter = chatCompleted"
  shows "currentStep (enter s) = 4 \<and> apiResults (enter s) = apiResults s
      \<and> scoreData (enter s) = scoreData s \<and> apiError (enter s) = apiError s
      \<and> isLoading (enter s) = isLoading s \<and> scriptLength (enter s) = scriptLength s
      \<and> ctaInclusion (enter s) = ctaInclusion s"
  using assms by (auto simp: confirmSkip_def chatCompleted_def)

lemma deps_change_on_entering:
  assumes "currentStep s \<noteq> 4" and "currentStep x = 4"
  shows "scoreDeps x \<noteq> scoreDeps s"
    and "generationDeps x \<noteq> generationDeps s"
    and "firstQuestionDeps x \<noteq> firstQuestionDeps s"
  using assms by (auto simp: scoreDeps_def generationDeps_def firstQuestionDeps_def)

text \<open>The render after a change of all three dependency arrays runs all three effects.\<close>

lemma render_changed:
  assumes "scoreDeps x \<noteq> scoreDeps s" and "generationDeps x \<noteq> generationDeps s"
    and "firstQuestionDeps x \<noteq> firstQuestionDeps s"
  shows "render lower (act (\<lambda>s. x) (atRest s))
     = \<lparr> ui = fst (firstQuestionEffect (fst (generationEffect (scoreEffect lower x)))),
         scoreEffectDeps = Some (scoreDeps x),
         generationEffectDeps = Some (generationDeps x),
         questionEffectDeps = Some (firstQuestionDeps x),
         questionFetches =
           (if snd (firstQuestionEffect (fst (generationEffect (scoreEffect lower x))))
            then [True] else []),
         issued = (case snd (generationEffect (scoreEffect lower x)) of
                     None \<Rightarrow> [] | Some request \<Rightarrow> [request]) \<rparr>"
  using assms by (simp add: render_def act_def atRest_def Let_def)

section \<open>Entering Result\<close>

text \<open>
  Claim C3, as the code has it. Both ways into Result (\<open>confirmSkip\<close>, and the timer
  after the closing chat message) set the step and themselves clear neither the result,
  the score nor the error. On the render that follows, with a truthy result in the state
  the result and the error are kept, the score is computed anew from that result and no
  request is issued; with no truthy result and the flag \<open>isLoading\<close> set (by a generation
  request or by the fetch of the first question) nothing happens; with no truthy result
  and the flag not set one request is issued, whose start clears the result, the score
  and the error and sets the flag, and the render after that one issues no further
  request.
\<close>

theorem entering_result:
  assumes "currentStep s \<noteq> 4" and "enter = confirmSkip \<or> enter = chatCompleted"
  shows "currentStep (enter s) = 4
       \<and> apiResults (enter s) = apiResults s
       \<and> scoreData (enter s) = scoreData s
       \<and> apiError (enter s) = apiError s
       \<and> (if resultsTruthy (apiResults s) then
            ui (render lower (act enter (atRest s)))
              = (enter s)\<lparr>scoreData :=
                   calculateScores lower (apiResults s) (scriptLength s) (ctaInclusion s)\<rparr>
            \<and> issued (render lower (act enter (atRest s))) = []
          else if isLoading s then
            ui (render lower (act enter (atRest s))) = enter s
            \<and> issued (render lower (act enter (atRest s))) = []
          else
            ui (render lower (act enter (atRest s)))
              = (enter s)\<lparr>isLoading := True, apiError := None, apiResults := None,
                  scoreData := None, loadingProgress := 0, retryCount := 0,
                  estimatedTime := 25\<rparr>
            \<and> issued (render lower (act enter (atRest s))) = [finalRequestData (enter s)]
            \<and> issued (render lower (render lower (act enter (atRest s))))
                = [finalRequestData (enter s)])"
proof -
  let ?x = "enter s"
  let ?c = "render lower (act enter (atRest s))"
  note e = enter_result_fields [OF assms(2), of s]
  from e have step: "currentStep ?x = 4"
    by simp
  note d = deps_change_on_entering [OF assms(1) step]
  have "act enter (atRest s) = act (\<lambda>s. ?x) (atRest s)"
    by (simp add: act_def atRest_def)
  then have r: "?c
     = \<lparr> ui = fst (firstQuestionEffect (fst (generationEffect (scoreEffect lower ?x)))),
         scoreEffectDeps = Some (scoreDeps ?x),
         generationEffectDeps = Some (generationDeps ?x),
         questionEffectDeps = Some (firstQuestionDeps ?x),
         questionFetches =
           (if snd (firstQuestionEffect (fst (generationEffect (scoreEffect lower ?x))))
            then [True] else []),
         issued = (case snd (generationEffect (scoreEffect lower ?x)) of
                     None \<Rightarrow> [] | Some request \<Rightarrow> [request]) \<rparr>"
    using render_changed [OF d, of lower] by simp
  have fields: "currentStep ?x = 4 \<and> apiResults ?x = apiResults s
       \<and> scoreData ?x = scoreData s \<and> apiError ?x = apiError s"
    using e by simp
  have rest: "if resultsTruthy (apiResults s) then
            ui ?c = ?x\<lparr>scoreData :=
                   calculateScores lower (apiResults s) (scriptLength s) (ctaInclusion s)\<rparr>
            \<and> issued ?c = []
          else if isLoading s then ui ?c = ?x \<and> issued ?c = []
          else
            ui ?c = ?x\<lparr>isLoading := True, apiError := None, apiResults := None,
                  scoreData := None, loadingProgress := 0, retryCount := 0,
                  estimatedTime := 25\<rparr>
            \<and> issued ?c = [finalRequestData ?x]
            \<and> issued (render lower ?c) = [finalRequestData ?x]"
  proof (cases "resultsTruthy (apiResults s)")
    case True
    then have t: "resultsTruthy (apiResults ?x)"
      using e by simp
    have sc: "scoreEffect lower ?x
        = ?x\<lparr>scoreData :=
             calculateScores lower (apiResults s) (scriptLength s) (ctaInclusion s)\<rparr>"
      using scoreEffect_truthy [OF t step, of lower] e by simp
    have g: "generationEffect (scoreEffect lower ?x) = (scoreEffect lower ?x, None)"
      by (rule generationEffect_idle) (simp add: sc t)
    have q: "firstQuestionEffect (scoreEffect lower ?x) = (scoreEffect lower ?x, False)"
      by (rule firstQuestionEffect_idle) (simp add: sc step)
    show ?thesis
      using True by (simp add: r sc g [unfolded sc] q [unfolded sc])
  next
    case False
    then have f: "\<not> resultsTruthy (apiResults ?x)"
      using e by simp
    have sc: "scoreEffect lower ?x = ?x"
      by (rule scoreEffect_idle) (simp add: f)
    show ?thesis
    proof (cases "isLoading s")
      case True
      then have l: "isLoading ?x"
        using e by simp
      have g: "generationEffect ?x = (?x, None)"
        by (rule generationEffect_idle) (simp add: l)
      have q: "firstQuestionEffect ?x = (?x, False)"
        by (rule firstQuestionEffect_idle) (simp add: step)
      show ?thesis
        using False True by (simp add: r sc g q)
    next
      case notLoading: False
      let ?y = "?x\<lparr>isLoading := True, apiError := None, apiResults := None,
                  scoreData := None, loadingProgress := 0, retryCount := 0,
                  estimatedTime := 25\<rparr>"
      have nl: "\<not> isLoading ?x"
        using notLoading e by simp
      have g: "generationEffect ?x = (?y, Some (finalRequestData ?x))"
        using f nl step by (simp add: generationEffect_def fetchFinalScript_start_def)
      have q: "firstQuestionEffect ?y = (?y, False)"
        by (rule firstQuestionEffect_idle) (simp add: step)
      have first: "?c
          = \<lparr> ui = ?y, scoreEffectDeps = Some (scoreDeps ?x),
              generationEffectDeps = Some (generationDeps ?x),
              questionEffectDeps = Some (firstQuestionDeps ?x),
              questionFetches = [], issued = [finalRequestData ?x] \<rparr>"
        by (simp add: r sc g q)
      have sy: "scoreEffect lower ?y = ?y"
        by (rule scoreEffect_idle) simp
      have gy: "generationEffect ?y = (?y, None)"
        by (rule generationEffect_idle) simp
      have "issued (render lower ?c) = [finalRequestData ?x]"
        unfolding first by (simp add: render_def Let_def sy gy)
      then show ?thesis
        using False notLoading by (simp add: first)
    qed
  qed
  from fields rest show ?thesis
    by (simp only: simp_thms)
qed

text \<open>
  The witness is a session restored at Refinement with an answer and a question in the
  history: nothing is loading, and confirming the skip issues the request.
\<close>

theorem entering_result_witness:
  "map reqText (issued (render asciiToLowerCase (act confirmSkip (atRest
       (initialState\<lparr>currentStep := 7 / 2, selectedStyle := js ''meme'', keyword := js ''cats'',
          selectedLanguage := js ''English'', selectedTone := js ''Casual'',
          chatMessages := [\<lparr>msgId = js ''msg_6_1'', msgType = User, content = js ''Hello'',
              options = None, timestamp = 6\<rparr>,
            \<lparr>msgId = js ''msg_7_2'', msgType = Ai, content = js ''Which audience?'',
              options = Some [], timestamp = 7\<rparr>]\<rparr>)))))
   = [js ''cats'']
   \<and> isLoading (ui (render asciiToLowerCase (act confirmSkip (atRest
       (initialState\<lparr>currentStep := 7 / 2, selectedStyle := js ''meme'', keyword := js ''cats'',
          selectedLanguage := js ''English'', selectedTone := js ''Casual'',
          chatMessages := [\<lparr>msgId = js ''msg_6_1'', msgType = User, content = js ''Hello'',
              options = None, timestamp = 6\<rparr>,
            \<lparr>msgId = js ''msg_7_2'', msgType = Ai, content = js ''Which audience?'',
              options = Some [], timestamp = 7\<rparr>]\<rparr>)))))"
proof -
  let ?s = "initialState\<lparr>currentStep := 7 / 2, selectedStyle := js ''meme'', keyword := js ''cats'',
          selectedLanguage := js ''English'', selectedTone := js ''Casual'',
          chatMessages := [\<lparr>msgId = js ''msg_6_1'', msgType = User, content = js ''Hello'',
              options = None, timestamp = 6\<rparr>,
            \<lparr>msgId = js ''msg_7_2'', msgType = Ai, content = js ''Which audience?'',
              options = Some [], timestamp = 7\<rparr>]\<rparr>"
  have h1: "currentStep ?s \<noteq> 4"
    by simp
  have h2: "confirmSkip = confirmSkip \<or> confirmSkip = chatCompleted"
    by simp
  have n: "\<not> resultsTruthy (apiResults ?s)" "\<not> isLoading ?s"
    by (simp_all add: initialState_def)
  from entering_result [OF h1 h2, of asciiToLowerCase] n
  have "ui (render asciiToLowerCase (act confirmSkip (atRest ?s)))
          = (confirmSkip ?s)\<lparr>isLoading := True, apiError := None, apiResults := None,
               scoreData := None, loadingProgress := 0, retryCount := 0,
               estimatedTime := 25\<rparr>
      \<and> issued (render asciiToLowerCase (act confirmSkip (atRest ?s)))
          = [finalRequestData (confirmSkip ?s)]"
    by simp
  then show ?thesis
    by (simp add: finalRequestData_def confirmSkip_def)
qed

text \<open>
  The claim as it is written fails in three runs. (1) A result has landed at Result; the
  user goes back (Shift+Tab, to Settings), forward (to Refinement, where the fetch of the
  first question sets \<open>isLoading\<close>) and confirms the skip: the earlier result is still
  there, its score is computed again, and no request is issued. (2) From a session
  restored at Refinement the skip issues a request; when that request fails, the effect
  issues a second one. (3) In a fresh session that goes from Settings into Refinement
  and confirms the skip, \<open>isLoading\<close> is still set by the fetch of the first question,
  whose answer was dropped, and no request is issued at all.
\<close>

theorem entering_result_counterexample:
  "ui (render asciiToLowerCase (act confirmSkip (render asciiToLowerCase
      (render asciiToLowerCase (act handleNext (render asciiToLowerCase (act handleBack (atRest
         (initialState\<lparr>currentStep := 4, selectedStyle := js ''meme'', keyword := js ''cats'',
            selectedLanguage := js ''English'', selectedTone := js ''Casual'',
            apiResults := Some (Text (js ''old script'')),
            scoreData := Some \<lparr>overall = 52, creativity = 100, engagement = 70,
                               clarity = 35, timing = 2\<rparr>\<rparr>)))))))))
   = initialState\<lparr>currentStep := 4, selectedStyle := js ''meme'', keyword := js ''cats'',
        selectedLanguage := js ''English'', selectedTone := js ''Casual'',
        apiResults := Some (Text (js ''old script'')),
        scoreData := Some \<lparr>overall = 52, creativity = 100, engagement = 70,
                           clarity = 35, timing = 2\<rparr>,
        skipRefinement := True, hasAttemptedQuestionFetch := True, isLoading := True\<rparr>
   \<and> issued (render asciiToLowerCase (act confirmSkip (render asciiToLowerCase
      (render asciiToLowerCase (act handleNext (render asciiToLowerCase (act handleBack (atRest
         (initialState\<lparr>currentStep := 4, selectedStyle := js ''meme'', keyword := js ''cats'',
            selectedLanguage := js ''English'', selectedTone := js ''Casual'',
            apiResults := Some (Text (js ''old script'')),
            scoreData := Some \<lparr>overall = 52, creativity = 100, engagement = 70,
                               clarity = 35, timing = 2\<rparr>\<rparr>)))))))))
     = []
   \<and> map reqText (issued (render asciiToLowerCase
      (act (fetchFinalScript_failed True \<lparr>name = js ''TypeError'', errorMessage = js ''Failed to fetch''\<rparr>)
        (render asciiToLowerCase (render asciiToLowerCase (act confirmSkip (atRest
           (initialState\<lparr>currentStep := 7 / 2, selectedStyle := js ''meme'',
              keyword := js ''cats'', selectedLanguage := js ''English'',
              selectedTone := js ''Casual'',
              chatMessages := [\<lparr>msgId = js ''msg_6_1'', msgType = User, content = js ''Hello'',
              options = None, timestamp = 6\<rparr>,
            \<lparr>msgId = js ''msg_7_2'', msgType = Ai, content = js ''Which audience?'',
              options = Some [], timestamp = 7\<rparr>]\<rparr>))))))))
     = [js ''cats'', js ''cats'']
   \<and> issued (render asciiToLowerCase (render asciiToLowerCase (act confirmSkip
      (questionFetchSettled 5 [] (\<lambda>x. x) noQuestion
        (render asciiToLowerCase (render asciiToLowerCase (act handleNext (atRest
           (initialState\<lparr>currentStep := 3, selectedStyle := js ''meme'',
              keyword := js ''cats'', selectedLanguage := js ''English'',
              selectedTone := js ''Casual''\<rparr>)))))))))
     = []
   \<and> isLoading (ui (render asciiToLowerCase (render asciiToLowerCase (act confirmSkip
      (questionFetchSettled 5 [] (\<lambda>x. x) noQuestion
        (render asciiToLowerCase (render asciiToLowerCase (act handleNext (atRest
           (initialState\<lparr>currentStep := 3, selectedStyle := js ''meme'',
              keyword := js ''cats'', selectedLanguage := js ''English'',
              selectedTone := js ''Casual''\<rparr>))))))))))"
  by code_simp

section \<open>Failure of the question fetch\<close>

lemma fetchNextQuestion_failure:
  "fetchNextQuestion (Inl e) parsed = noQuestion"
  by (simp add: fetchNextQuestion_def)

lemma fetchNextQuestion_not_ok:
  "\<not> ok res \<Longrightarrow> fetchNextQuestion (Inr res) parsed = noQuestion"
  by (simp add: fetchNextQuestion_def)

lemma fetchNextQuestion_bad_json:
  "fetchNextQuestion (Inr res) None = noQuestion"
  by (simp add: fetchNextQuestion_def)

lemma apiError_fallbackMessage: "apiError (fallbackMessage now text s) = apiError s"
  by (simp add: fallbackMessage_def generateMessageId_def Let_def)

lemma apiError_firstQuestionTyped:
  "apiError (firstQuestionTyped m now q opts s) = apiError s"
  by (simp add: firstQuestionTyped_def generateMessageId_def Let_def)

text \<open>None of the handlers of the question fetch writes \<open>apiError\<close>.\<close>

lemma apiError_firstQuestionResolved:
  "apiError (firstQuestionResolved m now revealed clean firstQ s) = apiError s"
  by (simp add: firstQuestionResolved_def typeMessage_def apiError_fallbackMessage
        apiError_firstQuestionTyped split: option.splits)

lemma apiError_firstQuestionRejected:
  "apiError (firstQuestionRejected m now s) = apiError s"
  by (simp add: firstQuestionRejected_def apiError_fallbackMessage)

text \<open>
  Had the flag still been set, the handler would have shown the fallback message and
  reset the loading flag.
\<close>

lemma firstQuestionResolved_mounted:
  "map content (chatMessages (firstQuestionResolved True now revealed clean noQuestion s))
     = [js ''Unable to generate refinement questions. You can skip this step.'']
   \<and> \<not> isLoading (firstQuestionResolved True now revealed clean noQuestion s)
   \<and> questionFetchFailed (firstQuestionResolved True now revealed clean noQuestion s)"
  by (simp add: firstQuestionResolved_def noQuestion_def fallbackMessage_def
        generateMessageId_def Let_def)

text \<open>
  Whatever the first question fetch answers, the handler drops it: the state is the one
  that the effect left, with the loading flag set.
\<close>

lemma first_question_answer_dropped:
  assumes "currentStep s = 3" and "chatMessages s = []" and "\<not> isLoading s"
  shows "ui (questionFetchSettled now revealed clean firstQ
              (render lower (render lower (act handleNext (atRest s)))))
         = s\<lparr>currentStep := 7 / 2, questionFetchFailed := False,
             hasAttemptedQuestionFetch := True, isLoading := True\<rparr>"
  using assms
  by (simp add: questionFetchSettled_def firstQuestionResolved_def render_def act_def
        atRest_def handleNext_def firstQuestionEffect_def firstQuestionDeps_def scoreDeps_def
        generationDeps_def scoreEffect_def generationEffect_def Let_def)

text \<open>
  Claim C8. A question fetch that fails is said to give way to a static fallback message
  that tells the user to skip. In the code the fetch degrades to
  \<open>{question: null, options: []}\<close>, \<open>apiError\<close> is not written and the attempt is
  recorded, but the fallback message is never shown: the effect run that started the
  fetch has been cleaned up by the time the fetch settles, so the handler returns at
  its first line. The history stays empty and the loading flag stays set. The run: a
  fresh session at Settings, Next, the two renders, and the fetch failing with a
  network error.
\<close>

theorem question_fetch_failure_shows_nothing:
  "fetchNextQuestion
     (Inl (Some \<lparr>name = js ''TypeError'', errorMessage = js ''Failed to fetch''\<rparr>)) None
   = noQuestion
   \<and> ui (questionFetchSettled 5 [] (\<lambda>x. x)
        (fetchNextQuestion
           (Inl (Some \<lparr>name = js ''TypeError'', errorMessage = js ''Failed to fetch''\<rparr>)) None)
        (render asciiToLowerCase (render asciiToLowerCase (act handleNext (atRest
           (initialState\<lparr>currentStep := 3, selectedStyle := js ''meme'',
              keyword := js ''cats'', selectedLanguage := js ''English'',
              selectedTone := js ''Casual''\<rparr>))))))
     = initialState\<lparr>currentStep := 7 / 2, selectedStyle := js ''meme'',
          keyword := js ''cats'', selectedLanguage := js ''English'',
          selectedTone := js ''Casual'', hasAttemptedQuestionFetch := True,
          isLoading := True\<rparr>
   \<and> chatMessages (initialState\<lparr>currentStep := 7 / 2, selectedStyle := js ''meme'',
          keyword := js ''cats'', selectedLanguage := js ''English'',
          selectedTone := js ''Casual'', hasAttemptedQuestionFetch := True,
          isLoading := True\<rparr>) = []
   \<and> apiError (initialState\<lparr>currentStep := 7 / 2, selectedStyle := js ''meme'',
          keyword := js ''cats'', selectedLanguage := js ''English'',
          selectedTone := js ''Casual'', hasAttemptedQuestionFetch := True,
          isLoading := True\<rparr>) = None"
proof -
  let ?s = "initialState\<lparr>currentStep := 3, selectedStyle := js ''meme'',
              keyword := js ''cats'', selectedLanguage := js ''English'',
              selectedTone := js ''Casual''\<rparr>"
  have h: "currentStep ?s = 3" "chatMessages ?s = []" "\<not> isLoading ?s"
    by (simp_all add: initialState_def)
  have e: "?s\<lparr>currentStep := 7 / 2, questionFetchFailed := False,
             hasAttemptedQuestionFetch := True, isLoading := True\<rparr>
      = initialState\<lparr>currentStep := 7 / 2, selectedStyle := js ''meme'',
          keyword := js ''cats'', selectedLanguage := js ''English'',
          selectedTone := js ''Casual'', hasAttemptedQuestionFetch := True,
          isLoading := True\<rparr>"
    by (simp add: initialState_def)
  show ?thesis
    using first_question_answer_dropped [OF h, of 5 "[]" "\<lambda>x. x" _ asciiToLowerCase]
    by (simp add: e fetchNextQuestion_def initialState_def)
qed

section \<open>Size of the conversation history\<close>

lemma length_sliceLast: "length (sliceLast n xs) = min n (length xs)"
  by (simp add: sliceLast_def)

lemma sliceLast_suffix: "\<exists>ys. xs = ys @ sliceLast n xs"
  by (metis append_take_drop_id sliceLast_def)

lemma chatMessages_generateMessageId:
  "chatMessages (snd (generateMessageId now s)) = chatMessages s"
  by (simp add: generateMessageId_def Let_def)

lemma length_handleChatResponse:
  "length (chatMessages (handleChatResponse now response messageId s))
     = min 49 (length (chatMessages s)) + 1"
  by (simp add: handleChatResponse_def Let_def chatMessages_generateMessageId
        length_sliceLast clearOptions_def split: option.splits)

lemma length_appendQuestion:
  "length (chatMessages (appendQuestion now q opts s)) = length (chatMessages s) + 1"
  by (simp add: appendQuestion_def Let_def chatMessages_generateMessageId)

lemma length_appendClosing:
  "length (chatMessages (appendClosing now s)) = length (chatMessages s) + 1"
  by (simp add: appendClosing_def Let_def chatMessages_generateMessageId)

lemma length_handleNextQuestion:
  "length (chatMessages (handleNextQuestion now revealed clean nextQ s)) = length (chatMessages s) + 1"
  by (simp add: handleNextQuestion_def typeMessage_def length_appendQuestion
        length_appendClosing split: option.splits)

text \<open>
  The user's turn is appended to the last 49 turns, so the history holds at most 50
  turns after it, the most recent ones; the assistant's turn is appended to all of them.
\<close>

lemma handleChatResponse_at_most_50:
  "length (chatMessages (handleChatResponse now response messageId s)) \<le> 50"
  by (simp add: length_handleChatResponse)

lemma answer_then_question_at_most_51:
  "length (chatMessages (handleNextQuestion now' revealed clean nextQ
             (handleChatResponse now response messageId s))) \<le> 51"
  by (simp add: length_handleNextQuestion length_handleChatResponse)

lemma length_round:
  "length (chatMessages (handleNextQuestion now revealed clean nextQ (handleChatResponse now response None s)))
     = min 49 (length (chatMessages s)) + 2"
  by (simp add: length_handleNextQuestion length_handleChatResponse)

lemma length_rounds:
  "n \<le> 25 \<Longrightarrow> chatMessages s = [] \<Longrightarrow>
   length (chatMessages
     (((\<lambda>t. handleNextQuestion now revealed clean nextQ (handleChatResponse now response None t)) ^^ n) s))
     = 2 * n"
  by (induction n) (simp_all add: length_round)

text \<open>
  Claim C6. The history is said to hold at most 50 turns at every point of a refinement
  session. A session of 26 rounds of an answer of the user and a question of the
  service leaves 51 turns in it: after 25 rounds the history has 50 turns, the 26th
  answer is appended to the last 49 of them, and the callback that appends the next
  question does not cut the history.
\<close>

theorem history_exceeds_50:
  "length (chatMessages
     (((\<lambda>t. handleNextQuestion 0 (js ''Which audience?'') (\<lambda>x. x) \<lparr>question = Some (js ''Which audience?''), questionOptions = []\<rparr>
               (handleChatResponse 0 (js ''Everyone'') None t)) ^^ 26)
        (initialState\<lparr>currentStep := 7 / 2\<rparr>)))
   = 51"
proof -
  let ?round = "\<lambda>t. handleNextQuestion 0 (js ''Which audience?'') (\<lambda>x. x)
      \<lparr>question = Some (js ''Which audience?''), questionOptions = []\<rparr>
      (handleChatResponse 0 (js ''Everyone'') None t)"
  let ?s = "initialState\<lparr>currentStep := 7 / 2\<rparr>"
  have none: "chatMessages ?s = []"
    by (simp add: initialState_def)
  have "length (chatMessages ((?round ^^ 25) ?s)) = 2 * 25"
    using none by (intro length_rounds) simp_all
  then have l50: "length (chatMessages ((?round ^^ 25) ?s)) = 50"
    by simp
  have "(?round ^^ 26) ?s = ?round ((?round ^^ 25) ?s)"
    by (simp add: numeral_eq_Suc)
  then show ?thesis
    by (simp add: length_round l50)
qed

section \<open>Restoring a stored session\<close>

text \<open>
  Claim C9. A snapshot whose timestamp is one hour old or older, and a snapshot without
  a timestamp, are not restored: the restore effect leaves the state as it is, which on
  a cold start is the initial state.
\<close>

theorem stale_snapshot_not_restored:
  assumes "snapshotTimestamp snap = None
           \<or> (\<exists>t. snapshotTimestamp snap = Some t \<and> 3600000 \<le> now - t)"
  shows "restore now (Saved snap) s = s
       \<and> restore now (Saved snap) initialState = initialState"
  using assms by (auto simp: restore_def)

theorem stale_snapshot_not_restored_witness:
  "restore 5000000 (Saved \<lparr>currentStep = 3, selectedStyle = (js ''meme''), customStyleName = [],
       broadTopic = [], keyword = (js ''cats''), scriptLength = 60, selectedLanguage = (js ''English''),
       selectedTone = (js ''Casual''), ctaInclusion = True, chatMessages = [],
       snapshotTimestamp = Some 1400000\<rparr>) initialState = initialState
   \<and> restore 5000000 (Saved \<lparr>currentStep = 3, selectedStyle = (js ''meme''), customStyleName = [],
       broadTopic = [], keyword = (js ''cats''), scriptLength = 60, selectedLanguage = (js ''English''),
       selectedTone = (js ''Casual''), ctaInclusion = True, chatMessages = [],
       snapshotTimestamp = None\<rparr>) initialState = initialState"
proof -
  let ?old = "\<lparr>currentStep = 3, selectedStyle = (js ''meme''), customStyleName = [],
       broadTopic = [], keyword = (js ''cats''), scriptLength = 60, selectedLanguage = (js ''English''),
       selectedTone = (js ''Casual''), ctaInclusion = True, chatMessages = [],
       snapshotTimestamp = Some (1400000 :: int)\<rparr>"
  let ?none = "\<lparr>currentStep = 3, selectedStyle = (js ''meme''), customStyleName = [],
       broadTopic = [], keyword = (js ''cats''), scriptLength = 60, selectedLanguage = (js ''English''),
       selectedTone = (js ''Casual''), ctaInclusion = True, chatMessages = [],
       snapshotTimestamp = (None :: int option)\<rparr>"
  have a: "snapshotTimestamp ?old = None
           \<or> (\<exists>t. snapshotTimestamp ?old = Some t \<and> 3600000 \<le> (5000000 :: int) - t)"
    by simp
  have b: "snapshotTimestamp ?none = None
           \<or> (\<exists>t. snapshotTimestamp ?none = Some t \<and> 3600000 \<le> (5000000 :: int) - t)"
    by simp
  show ?thesis
    using stale_snapshot_not_restored [OF a, of initialState]
      stale_snapshot_not_restored [OF b, of initialState]
    by simp
qed

section \<open>Retry and error classification\<close>

lemma backoff_values:
  "backoff 1 = 1000 \<and> backoff 2 = 2000 \<and> backoff 3 = 4000 \<and> backoff (4 + n) = 8000"
proof -
  have "(2::nat) ^ 3 \<le> 2 ^ (3 + n)"
    by (rule power_increasing) simp_all
  then have "(8000::nat) \<le> 1000 * 2 ^ (3 + n)"
    by simp
  then show ?thesis
    by (simp add: backoff_def numeral_eq_Suc)
qed

lemma fetchLoop_step:
  assumes "retried (fetch i)" and "i < m"
  shows "\<exists>le'. fetchLoop fetch m i le tr = fetchLoop fetch m (Suc i) le' (tr @ attemptEvents i)"
proof (cases "fetch i")
  case (Resolved x)
  with assms have "fetchLoop fetch m i le tr
      = fetchLoop fetch m (Suc i) (Some (newError ((js ''HTTP '') @ showNat (status x))))
          (tr @ attemptEvents i)"
    by (simp add: fetchLoop.simps [of fetch m i] attemptEvents_def backoff_def Let_def)
  then show ?thesis ..
next
  case (Rejected e)
  with assms have "fetchLoop fetch m i le tr
      = fetchLoop fetch m (Suc i) (Some e) (tr @ attemptEvents i)"
    by (simp add: fetchLoop.simps [of fetch m i] attemptEvents_def backoff_def Let_def)
  then show ?thesis ..
qed

lemma fetchLoop_stop:
  assumes "\<not> retried (fetch k) \<or> k = m" and "k \<le> m"
  shows "fetchLoop fetch m k le tr = (outcomeResult (fetch k), tr @ attemptEvents k)"
proof (cases "fetch k")
  case (Resolved x)
  with assms show ?thesis
    by (auto simp: fetchLoop.simps [of fetch m k] attemptEvents_def backoff_def Let_def)
next
  case (Rejected e)
  with assms show ?thesis
    by (auto simp: fetchLoop.simps [of fetch m k] attemptEvents_def backoff_def Let_def)
qed

lemma fetchLoop_run:
  "i \<le> k \<Longrightarrow> k \<le> m \<Longrightarrow> (\<forall>j. i \<le> j \<and> j < k \<longrightarrow> retried (fetch j))
     \<Longrightarrow> \<not> retried (fetch k) \<or> k = m
     \<Longrightarrow> fetchLoop fetch m i le tr
           = (outcomeResult (fetch k), tr @ concat (map attemptEvents [i..<Suc k]))"
proof (induction "k - i" arbitrary: i le tr)
  case 0
  then have ik: "i = k" by simp
  have "[k..<Suc k] = [k]" by simp
  then have "concat (map attemptEvents [k..<Suc k]) = attemptEvents k"
    by (simp only: list.map concat.simps append_Nil2)
  with fetchLoop_stop [of fetch k m le tr] "0.prems"(2,4) ik show ?case
    by simp
next
  case (Suc d)
  then have lt: "i < k" and im: "i < m" and r: "retried (fetch i)"
    by auto
  have "[i..<Suc k] = i # [Suc i..<Suc k]"
    using lt by (simp add: upt_conv_Cons)
  then have up: "concat (map attemptEvents [i..<Suc k])
      = attemptEvents i @ concat (map attemptEvents [Suc i..<Suc k])"
    by (simp only: list.map concat.simps)
  have ih: "\<And>le' tr'. fetchLoop fetch m (Suc i) le' tr'
        = (outcomeResult (fetch k), tr' @ concat (map attemptEvents [Suc i..<Suc k]))"
    using Suc.prems Suc.hyps(2) lt by (intro Suc.hyps(1)) auto
  from fetchLoop_step [of fetch i m le tr] r im obtain le' where
    "fetchLoop fetch m i le tr = fetchLoop fetch m (Suc i) le' (tr @ attemptEvents i)"
    by blast
  then show ?case
    by (simp only: ih up append_assoc)
qed

lemma fetchWithRetry_run:
  "k \<le> m \<Longrightarrow> (\<forall>j<k. retried (fetch j)) \<Longrightarrow> \<not> retried (fetch k) \<or> k = m
     \<Longrightarrow> fetchWithRetry fetch m = (outcomeResult (fetch k), specTrace k)"
  unfolding fetchWithRetry_def specTrace_def
  using fetchLoop_run [of 0 k m fetch None "[]"] by simp

text \<open>
  A server error on every attempt: all \<open>maxRetries + 1\<close> attempts are made, and the
  response of the last one is returned.
\<close>

lemma fetchWithRetry_exhausted:
  "(\<forall>j\<le>m. retried (fetch j)) \<Longrightarrow>
   fetchWithRetry fetch m = (outcomeResult (fetch m), specTrace m)"
  by (rule fetchWithRetry_run) simp_all

lemma showNat_digit: "n < 10 \<Longrightarrow> showNat n = [of_nat (48 + n)]"
  by (simp add: showNat.simps [of n])

lemma showNat_step: "10 \<le> n \<Longrightarrow> showNat n = showNat (n div 10) @ [of_nat (48 + n mod 10)]"
  by (simp add: showNat.simps [of n])

lemma showNat_three_digits:
  assumes "100 \<le> n" and "n < 1000"
  shows "showNat n
         = [of_nat (48 + n div 100), of_nat (48 + (n div 10) mod 10), of_nat (48 + n mod 10)]"
proof -
  have c: "n div 10 div 10 = n div 100"
    by (simp add: div_mult2_eq)
  from assms have "10 \<le> n" "10 \<le> n div 10" "n div 100 < 10"
    by simp_all
  then show ?thesis
    by (simp add: showNat_step [of n] showNat_step [of "n div 10"] c showNat_digit)
qed

lemma digit_4: "unitOf CHR ''4'' = of_nat 52"
  by (simp add: unitOf_def)

lemma includesStr_prefix: "isPrefixOf sub s \<Longrightarrow> includesStr s sub"
  by (cases s) simp_all

lemma httpError_4xx_message:
  assumes "400 \<le> status r" and "status r \<le> 499"
  shows "includesStr (errorMessage (httpError r)) (js ''HTTP 4'')"
proof -
  from assms have d: "status r div 100 = 4"
    by simp
  from assms have "showNat (status r)
      = [of_nat (48 + status r div 100), of_nat (48 + (status r div 10) mod 10),
         of_nat (48 + status r mod 10)]"
    by (intro showNat_three_digits) simp_all
  then have "showNat (status r)
      = [unitOf CHR ''4'', of_nat (48 + (status r div 10) mod 10), of_nat (48 + status r mod 10)]"
    by (simp add: d digit_4)
  then have "isPrefixOf (js ''HTTP 4'') (errorMessage (httpError r))"
    by (simp add: httpError_def newError_def js_def)
  then show ?thesis
    by (rule includesStr_prefix)
qed

lemma name_httpError: "name (httpError r) \<noteq> js ''AbortError''"
  by (simp add: httpError_def newError_def js_def unitOf_def)

lemma createApiError_4xx:
  assumes "400 \<le> status r" and "status r \<le> 499" and "onLine"
    and "\<not> includesStr (errorMessage (httpError r)) (js ''HTTP 5'')"
  shows "createApiError onLine (httpError r)
         = \<lparr> errorType = Server, message = js ''Bad request. Please check your input.'',
             retryable = False \<rparr>"
  using assms(3,4) httpError_4xx_message [OF assms(1,2)] name_httpError [of r]
  by (simp add: createApiError_def)

lemma createApiError_offline:
  "createApiError False (httpError r)
   = \<lparr> errorType = Network,
       message = js ''Internet connection lost. Please check your network.'',
       retryable = True \<rparr>"
  using name_httpError [of r] by (simp add: createApiError_def)

text \<open>
  Claim C5, as the code has it. While every attempt so far has answered with a status of
  500 or more (or has failed otherwise than by cancellation; \<open>retried\<close> covers both) and
  attempts remain, \<open>fetchWithRetry\<close> goes on to the next attempt, and it
  sleeps \<open>min(1000 * 2^(i-1), 8000)\<close> ms before attempt \<open>i > 0\<close>: 1000, 2000 and 4000 ms
  before the attempts 1, 2 and 3 and 8000 ms before every later one. A response with a
  status from 400 to 499 ends the loop at once, with no further sleep or fetch, also
  when attempts remain. The error made of that response is of the network class and
  retryable when the browser reports to be offline at the moment of the classification.
  When it reports to be online, the error is of the server class and not retryable,
  provided that the error message (the status text and the first 300 code units of the
  body included) does not contain \<open>HTTP 5\<close>.
\<close>

theorem retry_and_classification:
  assumes "list_all (\<lambda>j. retried (fetch j)) [0..<k]"
    and "k \<le> maxRetries"
    and "fetch k = Resolved r"
    and "400 \<le> status r" and "status r \<le> 499"
    and "\<not> includesStr (errorMessage (httpError r)) (js ''HTTP 5'')"
  shows "fetchWithRetry fetch maxRetries = (Inr r, specTrace k)
       \<and> generationError True (fst (fetchWithRetry fetch maxRetries))
           = Some \<lparr> errorType = Server,
                    message = js ''Bad request. Please check your input.'',
                    retryable = False \<rparr>
       \<and> generationError False (fst (fetchWithRetry fetch maxRetries))
           = Some \<lparr> errorType = Network,
                    message = js ''Internet connection lost. Please check your network.'',
                    retryable = True \<rparr>
       \<and> backoff 1 = 1000 \<and> backoff 2 = 2000 \<and> backoff 3 = 4000 \<and> backoff (4 + n) = 8000"
proof -
  from assms(1) have pre: "\<forall>j<k. retried (fetch j)"
    by (simp add: list_all_iff)
  have last: "\<not> retried (fetch k) \<or> k = maxRetries"
    using assms(3,5) by simp
  have run: "fetchWithRetry fetch maxRetries = (Inr r, specTrace k)"
    using fetchWithRetry_run [of k maxRetries fetch] assms(2,3) pre last by simp
  have nok: "\<not> ok r"
    using assms(4) by (simp add: ok_def)
  have online: "generationError True (fst (fetchWithRetry fetch maxRetries))
           = Some \<lparr> errorType = Server,
                    message = js ''Bad request. Please check your input.'',
                    retryable = False \<rparr>"
    using createApiError_4xx [OF assms(4,5) TrueI assms(6)] nok
    by (simp add: run generationError_def)
  have offline: "generationError False (fst (fetchWithRetry fetch maxRetries))
           = Some \<lparr> errorType = Network,
                    message = js ''Internet connection lost. Please check your network.'',
                    retryable = True \<rparr>"
    using createApiError_offline [of r] nok
    by (simp add: run generationError_def)
  from run online offline backoff_values [of n] show ?thesis
    by (simp only: simp_thms)
qed

text \<open>
  The witness: two answers 503, then a 404 whose body has 200 letters outside ASCII
  before its last word, with one retry left.
\<close>

theorem retry_and_classification_witness:
  "fetchWithRetry
     (\<lambda>i. if i < 2 then Resolved \<lparr>status = 503, statusText = js ''Service Unavailable'', bodyText = []\<rparr>
          else Resolved \<lparr>status = 404, statusText = js ''Not Found'',
                 bodyText = replicate 200 0xE9 @ js '' no such route''\<rparr>) 3
   = (Inr \<lparr>status = 404, statusText = js ''Not Found'',
            bodyText = replicate 200 0xE9 @ js '' no such route''\<rparr>,
      [Fetch 0, Sleep 1000, SetRetryCount 1, Fetch 1, Sleep 2000, SetRetryCount 2, Fetch 2])
   \<and> generationError True
       (Inr \<lparr>status = 404, statusText = js ''Not Found'',
              bodyText = replicate 200 0xE9 @ js '' no such route''\<rparr>)
     = Some \<lparr> errorType = Server, message = js ''Bad request. Please check your input.'',
              retryable = False \<rparr>
   \<and> generationError False
       (Inr \<lparr>status = 404, statusText = js ''Not Found'',
              bodyText = replicate 200 0xE9 @ js '' no such route''\<rparr>)
     = Some \<lparr> errorType = Network,
              message = js ''Internet connection lost. Please check your network.'',
              retryable = True \<rparr>"
proof -
  let ?bad = "\<lparr>status = 503, statusText = js ''Service Unavailable'', bodyText = []\<rparr>"
  let ?r = "\<lparr>status = 404, statusText = js ''Not Found'',
              bodyText = replicate 200 0xE9 @ js '' no such route''\<rparr>"
  let ?fetch = "\<lambda>i::nat. if i < 2 then Resolved ?bad else Resolved ?r"
  have h1: "list_all (\<lambda>j. retried (?fetch j)) [0..<2]"
    by (simp add: list_all_iff)
  have h2: "(2::nat) \<le> 3"
    by simp
  have h3: "?fetch 2 = Resolved ?r"
    by simp
  have h4: "400 \<le> status ?r" and h5: "status ?r \<le> 499"
    by simp_all
  have h6: "\<not> includesStr (errorMessage (httpError ?r)) (js ''HTTP 5'')"
    by code_simp
  have tr: "specTrace 2
      = [Fetch 0, Sleep 1000, SetRetryCount 1, Fetch 1, Sleep 2000, SetRetryCount 2, Fetch 2]"
    by code_simp
  note th = retry_and_classification [of ?fetch 2 3 ?r 0, OF h1 h2 h3 h4 h5 h6]
  from th have a: "fetchWithRetry ?fetch 3 = (Inr ?r, specTrace 2)"
    by (rule conjunct1)
  from th have "generationError True (fst (fetchWithRetry ?fetch 3))
      = Some \<lparr> errorType = Server, message = js ''Bad request. Please check your input.'',
               retryable = False \<rparr>"
    by (elim conjE)
  then have b: "generationError True (Inr ?r)
      = Some \<lparr> errorType = Server, message = js ''Bad request. Please check your input.'',
               retryable = False \<rparr>"
    by (simp only: a fst_conv)
  from th have "generationError False (fst (fetchWithRetry ?fetch 3))
      = Some \<lparr> errorType = Network,
               message = js ''Internet connection lost. Please check your network.'',
               retryable = True \<rparr>"
    by (elim conjE)
  then have c: "generationError False (Inr ?r)
      = Some \<lparr> errorType = Network,
               message = js ''Internet connection lost. Please check your network.'',
               retryable = True \<rparr>"
    by (simp only: a fst_conv)
  from a b c show ?thesis
    by (simp only: tr simp_thms)
qed

text \<open>
  The claim as it is written fails for a 404 response when the browser reports to be
  offline at the moment of the classification: the error is of the network class and
  retryable. It fails as well when the message made of the 404 response contains
  \<open>HTTP 5\<close>, here after 200 letters outside ASCII in the body: the test for a server
  error comes first and finds it.
\<close>

theorem classification_404_counterexample:
  "generationError False
     (fst (fetchWithRetry
        (\<lambda>i. Resolved \<lparr>status = 404, statusText = js ''Not Found'', bodyText = []\<rparr>) 2))
   = Some \<lparr> errorType = Network,
            message = js ''Internet connection lost. Please check your network.'',
            retryable = True \<rparr>
   \<and> generationError True
     (fst (fetchWithRetry
        (\<lambda>i. Resolved \<lparr>status = 404, statusText = js ''Not Found'',
                        bodyText = replicate 200 0xE9 @ js ''HTTP 5''\<rparr>) 2))
   = Some \<lparr> errorType = Server,
            message = js ''The server is temporarily unavailable. Please try again shortly.'',
            retryable = True \<rparr>"
  by code_simp

section \<open>Scores\<close>

lemma splitOn_nonempty: "splitOn c s \<noteq> []"
  by (induction s) (simp_all split: list.splits)

lemma length_splitOn: "length (splitOn c s) = Suc (length (filter (\<lambda>x. x = c) s))"
proof (induction s)
  case Nil
  show ?case by simp
next
  case (Cons x xs)
  then show ?case
    using splitOn_nonempty [of c xs] by (cases "splitOn c xs") simp_all
qed

lemma dbl_0: "dbl 0 = 0"
  by (simp add: dbl_def)

lemma dbl_small_integers:
  "dbl 1 = 1 \<and> dbl 70 = 70 \<and> dbl 100 = 100 \<and> dbl 200 = 200"
  by code_simp

lemma jsRound_of_int: "jsRound (of_int n) = n"
proof -
  have "\<lfloor>(of_int n :: rat) + 1 / 2\<rfloor> = n"
    by linarith
  then show ?thesis
    by (simp add: jsRound_def)
qed

lemma jsRound_small_integers: "jsRound 70 = 70 \<and> jsRound 100 = 100"
  using jsRound_of_int [of 70] jsRound_of_int [of 100] by simp

text \<open>
  When the count of the code equals the value that the code has for \<open>expectedWords\<close>,
  the difference is an exact zero, and so are the quotient and the product.
\<close>

lemma timingScore_exact:
  assumes "of_nat w = e" and "0 < w"
  shows "timingScore w e = 100"
proof -
  from assms have "e \<noteq> 0"
    by auto
  with assms(1) show ?thesis
    by (simp add: timingScore_def dbl_0 dbl_small_integers)
qed

lemma empty_script_scores:
  assumes "toLowerCase [] = []"
  shows "length (splitOn (unitOf CHR '' '') []) = 1 \<and> clarityScore [] = 100
       \<and> engagementScore toLowerCase [] cta = 70 \<and> creativityScore toLowerCase [] = 100"
  using assms
  by (simp add: clarityScore_def sentencesOf_def splitRegex_def trim_def
        engagementScore_def creativityScore_def dbl_0 dbl_small_integers js_def)

text \<open>
  Claim C2, as the code has it. The number of words of a text is, for the code, the
  number of its pieces between single spaces, which is at least 1, and the expected
  number is \<open>(scriptLength / 60) * 150\<close> in floating point. When the two are equal the
  timing score is 100, before and after rounding. An empty text counts as one word and
  is not scored 0: a structured result whose script is missing or empty gets a clarity
  of 100, an engagement of 70, a creativity of 100 and the timing score of a one-word
  text; an empty bare string (like no result at all) leaves the score unset.
  \<open>toLowerCase\<close> is the engine's, of which only \<open>"".toLowerCase() = ""\<close> is used.
\<close>

theorem timing_exact_and_empty_script:
  assumes "of_nat (length (splitOn (unitOf CHR '' '') (scriptTextOf r))) = expectedWords len"
    and "resultsTruthy (Some r)"
    and "toLowerCase [] = []"
  shows "timingScore (length (splitOn (unitOf CHR '' '') (scriptTextOf r))) (expectedWords len)
           = 100
       \<and> map_option timing (calculateScores toLowerCase (Some r) len cta) = Some 100
       \<and> calculateScores toLowerCase (Some (Text [])) len' cta' = None
       \<and> calculateScores toLowerCase (Some (Structured (a\<lparr>script := None\<rparr>))) len' cta'
           = Some \<lparr> overall = jsRound (dbl (dbl (dbl (dbl
                       (timingScore 1 (expectedWords len') + 100) + 70) + 100) / 4)),
                    creativity = 100, engagement = 70, clarity = 100,
                    timing = jsRound (timingScore 1 (expectedWords len')) \<rparr>
       \<and> calculateScores toLowerCase (Some (Structured (a\<lparr>script := Some []\<rparr>))) len' cta'
           = Some \<lparr> overall = jsRound (dbl (dbl (dbl (dbl
                       (timingScore 1 (expectedWords len') + 100) + 70) + 100) / 4)),
                    creativity = 100, engagement = 70, clarity = 100,
                    timing = jsRound (timingScore 1 (expectedWords len')) \<rparr>"
proof -
  have pos: "0 < length (splitOn (unitOf CHR '' '') (scriptTextOf r))"
    by (simp add: length_splitOn)
  have t: "timingScore (length (splitOn (unitOf CHR '' '') (scriptTextOf r))) (expectedWords len)
      = 100"
    using assms(1) pos by (rule timingScore_exact)
  have rounded: "map_option timing (calculateScores toLowerCase (Some r) len cta) = Some 100"
    using assms(2) by (simp add: calculateScores_def Let_def t jsRound_small_integers)
  have e: "scriptTextOf (Structured (a\<lparr>script := None\<rparr>)) = []"
    "scriptTextOf (Structured (a\<lparr>script := Some []\<rparr>)) = []"
    by (simp_all add: scriptTextOf_def)
  note es = empty_script_scores [where toLowerCase = toLowerCase and cta = cta', OF assms(3)]
  have empty: "calculateScores toLowerCase (Some (Structured (a\<lparr>script := None\<rparr>))) len' cta'
           = Some \<lparr> overall = jsRound (dbl (dbl (dbl (dbl
                       (timingScore 1 (expectedWords len') + 100) + 70) + 100) / 4)),
                    creativity = 100, engagement = 70, clarity = 100,
                    timing = jsRound (timingScore 1 (expectedWords len')) \<rparr>"
    "calculateScores toLowerCase (Some (Structured (a\<lparr>script := Some []\<rparr>))) len' cta'
           = Some \<lparr> overall = jsRound (dbl (dbl (dbl (dbl
                       (timingScore 1 (expectedWords len') + 100) + 70) + 100) / 4)),
                    creativity = 100, engagement = 70, clarity = 100,
                    timing = jsRound (timingScore 1 (expectedWords len')) \<rparr>"
    using es by (simp_all add: calculateScores_def Let_def e jsRound_small_integers)
  have none: "calculateScores toLowerCase (Some (Text [])) len' cta' = None"
    by (simp add: calculateScores_def)
  from t rounded none empty show ?thesis
    by (simp only: simp_thms)
qed

text \<open>
  The witness: 40 one-letter words between single spaces at 16 seconds, where the
  expected number is exactly 40.
\<close>

theorem timing_exact_and_empty_script_witness:
  "expectedWords 16 = 40
   \<and> length (splitOn (unitOf CHR '' '')
        (js ''a b c d e f g h i j k l m n o p q r s t a b c d e f g h i j k l m n o p q r s t''))
     = 40
   \<and> map_option timing (calculateScores asciiToLowerCase (Some (Text
        (js ''a b c d e f g h i j k l m n o p q r s t a b c d e f g h i j k l m n o p q r s t'')))
        16 False) = Some 100"
proof -
  let ?t = "js ''a b c d e f g h i j k l m n o p q r s t a b c d e f g h i j k l m n o p q r s t''"
  have ex: "expectedWords 16 = 40"
    by code_simp
  have n: "length (splitOn (unitOf CHR '' '') ?t) = 40"
    by code_simp
  have h1: "of_nat (length (splitOn (unitOf CHR '' '') (scriptTextOf (Text ?t))))
      = expectedWords 16"
    by (simp add: scriptTextOf_def n ex)
  have h2: "resultsTruthy (Some (Text ?t))"
    by (simp add: js_def)
  have h3: "asciiToLowerCase [] = []"
    by (simp add: asciiToLowerCase_def)
  note th = timing_exact_and_empty_script
    [where toLowerCase = asciiToLowerCase and r = "Text ?t" and len = 16 and cta = False,
      OF h1 h2 h3]
  have "map_option timing (calculateScores asciiToLowerCase (Some (Text ?t)) 16 False)
      = Some 100"
    by (rule th [THEN conjunct2, THEN conjunct1])
  with ex n show ?thesis
    by (simp only: simp_thms)
qed

text \<open>
  The claim as it is written fails in three ways. A structured result with an empty
  script at the default length of 45 seconds is scored 68 overall, and 100, 70, 100 and 1
  for the components. A text of 40 words, one per line, at 16 seconds (where 40 words
  are expected) counts as one word and gets a timing of 3. And a text of 55 words between
  single spaces at 22 seconds, where \<open>(22 / 60) * 150\<close> comes out just below 55, has a
  timing score just below 100 before rounding.
\<close>

theorem empty_script_counterexample:
  "calculateScores asciiToLowerCase
     (Some (Structured \<lparr>script = Some [], transitions = None, bRoll = None,
                         textOverlays = None, soundEffects = None\<rparr>)) 45 False
   = Some \<lparr> overall = 68, creativity = 100, engagement = 70, clarity = 100, timing = 1 \<rparr>
   \<and> map_option timing (calculateScores asciiToLowerCase
        (Some (Text (joinWith [10] (replicate 40 (js ''word''))))) 16 False) = Some 3
   \<and> expectedWords 22 < 55
   \<and> timingScore (length (splitOn (unitOf CHR '' '')
        (joinWith (js '' '') (replicate 55 (js ''word''))))) (expectedWords 22) < 100"
  by code_simp


end
